theory Spec2Isabelle
  imports Complex_Main
begin

section \<open>Metric/chart accumulator of the Training page\<close>

text \<open>
  Source: \<^verbatim>\<open>frontend/src/pages/Training.jsx\<close>, \<^verbatim>\<open>onMetric\<close>, the updater passed to
  \<^verbatim>\<open>setMetricData\<close> (lines 150-191). A chart holds a \<^verbatim>\<open>labels\<close> array and two datasets
  (\<^verbatim>\<open>datasets[0]\<close> = Train, \<^verbatim>\<open>datasets[1]\<close> = Val), each with a \<^verbatim>\<open>data\<close> array. The
  colour and style fields of a dataset are never written and are left out. Step labels
  are JavaScript numbers; the model takes them integer-valued, and \<^verbatim>\<open>===\<close> on them is
  HOL equality. A data cell is a number, \<^verbatim>\<open>null\<close>, or a hole left by an assignment past
  the end of an array.
\<close>

datatype 'v cell = Undefined | Null | Val 'v

record 'v chart =
  labels :: "int list"
  train_data :: "'v cell list"
  val_data :: "'v cell list"

record 'v metricData =
  primary :: "'v chart"
  secondary :: "'v chart"

definition initialChartData :: "'v chart" where
  "initialChartData = \<lparr>labels = [], train_data = [], val_data = []\<rparr>"

definition initialMetricData :: "'v metricData" where
  "initialMetricData = \<lparr>primary = initialChartData, secondary = initialChartData\<rparr>"

text \<open>A \<^verbatim>\<open>training_metric\<close> payload: the step counters, and the scalar fields read by key.\<close>

record 'v metric =
  m_epoch :: "int option"
  m_estimator :: "int option"
  m_iteration :: "int option"
  m_total_epochs :: "int option"
  m_total_estimators :: "int option"
  m_total_iterations :: "int option"
  m_step_name :: "string option"
  m_timestamp :: "string option"
  m_values :: "string \<Rightarrow> 'v option"

text \<open>\<^verbatim>\<open>Array.prototype.indexOf\<close>: the first index holding the value; \<open>None\<close> is \<^verbatim>\<open>-1\<close>.\<close>

fun indexOf :: "'a list \<Rightarrow> 'a \<Rightarrow> nat option" where
  "indexOf [] x = None"
| "indexOf (y # ys) x = (if y = x then Some 0 else map_option Suc (indexOf ys x))"

text \<open>\<^verbatim>\<open>arr[i] = v\<close>: in range it overwrites; past the end JavaScript extends the array with holes.\<close>

definition js_assign :: "'v cell list \<Rightarrow> nat \<Rightarrow> 'v cell \<Rightarrow> 'v cell list" where
  "js_assign xs i v =
     (if i < length xs then xs[i := v]
      else xs @ replicate (i - length xs) Undefined @ [v])"

text \<open>\<^verbatim>\<open>Array.prototype.shift\<close>: drops the first element; on an empty array it does nothing.\<close>

definition array_shift :: "'a list \<Rightarrow> 'a list" where
  "array_shift xs = (case xs of [] \<Rightarrow> [] | _ # ys \<Rightarrow> ys)"

definition shift_chart :: "'v chart \<Rightarrow> 'v chart" where
  "shift_chart c =
     \<lparr>labels = array_shift (labels c),
      train_data = array_shift (train_data c),
      val_data = array_shift (val_data c)\<rparr>"

definition maxPoints :: nat where
  "maxPoints = 150"

text \<open>
  The eviction loop, \<^verbatim>\<open>while (newPrimary.labels.length > maxPoints) { ... shift() ... }\<close>:
  the guard looks at the primary labels only, the body shifts both label arrays and the
  four data arrays.
\<close>

function evict :: "'v metricData \<Rightarrow> 'v metricData" where
  "evict md =
     (if length (labels (primary md)) > maxPoints
      then evict \<lparr>primary = shift_chart (primary md), secondary = shift_chart (secondary md)\<rparr>
      else md)"
  by pat_completeness auto
termination
  by (relation "measure (\<lambda>md. length (labels (primary md)))")
     (auto simp: shift_chart_def array_shift_def split: list.splits)

text \<open>\<^verbatim>\<open>metric[key] ?? null\<close>\<close>

definition or_null :: "'v option \<Rightarrow> 'v cell" where
  "or_null x = (case x of None \<Rightarrow> Null | Some v \<Rightarrow> Val v)"

definition primaryTrainKey :: "string \<Rightarrow> string" where
  "primaryTrainKey taskType = (if taskType = ''regression'' then ''train_r2'' else ''train_accuracy'')"

definition primaryValKey :: "string \<Rightarrow> string" where
  "primaryValKey taskType = (if taskType = ''regression'' then ''val_r2'' else ''val_accuracy'')"

definition secondaryTrainKey :: "string \<Rightarrow> string" where
  "secondaryTrainKey taskType = (if taskType = ''regression'' then ''train_rmse'' else ''train_loss'')"

definition secondaryValKey :: "string \<Rightarrow> string" where
  "secondaryValKey taskType = (if taskType = ''regression'' then ''val_rmse'' else ''val_loss'')"

definition trainP :: "string \<Rightarrow> 'v metric \<Rightarrow> 'v cell" where
  "trainP taskType m = or_null (m_values m (primaryTrainKey taskType))"

definition valP :: "string \<Rightarrow> 'v metric \<Rightarrow> 'v cell" where
  "valP taskType m = or_null (m_values m (primaryValKey taskType))"

definition trainS :: "string \<Rightarrow> 'v metric \<Rightarrow> 'v cell" where
  "trainS taskType m = or_null (m_values m (secondaryTrainKey taskType))"

definition valS :: "string \<Rightarrow> 'v metric \<Rightarrow> 'v cell" where
  "valS taskType m = or_null (m_values m (secondaryValKey taskType))"

text \<open>
  The updater \<^verbatim>\<open>prev => { ... }\<close> of \<^verbatim>\<open>setMetricData\<close>, closed over the task type, the
  resolved step label (\<^verbatim>\<open>currentXValue\<close>) and the metric. \<^verbatim>\<open>labelIndex\<close> is searched in
  the primary labels and used for all four data arrays.
\<close>

definition setMetricData_updater ::
  "string \<Rightarrow> int \<Rightarrow> 'v metric \<Rightarrow> 'v metricData \<Rightarrow> 'v metricData" where
  "setMetricData_updater taskType currentXValue m prev =
     (let newPrimary = primary prev; newSecondary = secondary prev
      in evict
        (case indexOf (labels newPrimary) currentXValue of
           Some labelIndex \<Rightarrow>
             \<lparr>primary = newPrimary
                \<lparr>train_data := js_assign (train_data newPrimary) labelIndex (trainP taskType m),
                 val_data := js_assign (val_data newPrimary) labelIndex (valP taskType m)\<rparr>,
              secondary = newSecondary
                \<lparr>train_data := js_assign (train_data newSecondary) labelIndex (trainS taskType m),
                 val_data := js_assign (val_data newSecondary) labelIndex (valS taskType m)\<rparr>\<rparr>
         | None \<Rightarrow>
             \<lparr>primary = newPrimary
                \<lparr>labels := labels newPrimary @ [currentXValue],
                 train_data := train_data newPrimary @ [trainP taskType m],
                 val_data := val_data newPrimary @ [valP taskType m]\<rparr>,
              secondary = newSecondary
                \<lparr>labels := labels newSecondary @ [currentXValue],
                 train_data := train_data newSecondary @ [trainS taskType m],
                 val_data := val_data newSecondary @ [valS taskType m]\<rparr>\<rparr>))"

text \<open>
  Folding a stream of metric events, each paired with its resolved step label, into the
  chart state, starting from any state.
\<close>

definition fold_metrics ::
  "string \<Rightarrow> 'v metricData \<Rightarrow> (int \<times> 'v metric) list \<Rightarrow> 'v metricData" where
  "fold_metrics taskType md evs =
     foldl (\<lambda>acc ev. setMetricData_updater taskType (fst ev) (snd ev) acc) md evs"


section \<open>JavaScript values shared by the pages\<close>

text \<open>
  A string-valued field that may be absent is a \<open>string option\<close> (\<open>None\<close> for \<^verbatim>\<open>undefined\<close>
  and \<^verbatim>\<open>null\<close>). JavaScript's truthiness test \<^verbatim>\<open>!x\<close> counts the empty string as absent.
\<close>

definition truthy_str :: "string option \<Rightarrow> bool" where
  "truthy_str x = (case x of None \<Rightarrow> False | Some s \<Rightarrow> s \<noteq> [])"

text \<open>Payloads carried in \<^verbatim>\<open>log.data\<close>: just enough of JSON to read a property of an object.\<close>

datatype json = JStr string | JNum int | JObj "(string \<times> json) list"

fun json_truthy :: "json \<Rightarrow> bool" where
  "json_truthy (JStr s) = (s \<noteq> [])"
| "json_truthy (JNum n) = (n \<noteq> 0)"
| "json_truthy (JObj kvs) = True"

definition truthy_json :: "json option \<Rightarrow> bool" where
  "truthy_json x = (case x of None \<Rightarrow> False | Some j \<Rightarrow> json_truthy j)"

definition get_field :: "json \<Rightarrow> string \<Rightarrow> json option" where
  "get_field j k = (case j of JObj kvs \<Rightarrow> map_of kvs k | _ \<Rightarrow> None)"

text \<open>A \<^verbatim>\<open>training_log\<close> payload, and the notes the pages synthesize themselves.\<close>

record log_event =
  l_type :: "string option"
  l_message :: "string option"
  l_key :: "string option"
  l_data :: "json option"
  l_timestamp :: "string option"

record status_update =
  u_status :: string
  u_timestamp :: "string option"

datatype toast = ToastSuccess string | ToastError string | ToastLoading string

text \<open>
  \<^verbatim>\<open>if (!log.timestamp) log.timestamp = new Date().toISOString();\<close> The clock reading
  is the parameter \<open>now\<close>. The handler mutates the event object it was handed, so the
  model returns the event as the handler leaves it.
\<close>

definition stamp_log :: "string \<Rightarrow> log_event \<Rightarrow> log_event" where
  "stamp_log now lg =
     (if \<not> truthy_str (l_timestamp lg) then lg\<lparr>l_timestamp := Some now\<rparr> else lg)"

definition client_note :: "string \<Rightarrow> string \<Rightarrow> string \<Rightarrow> log_event" where
  "client_note ty msg now =
     \<lparr>l_type = Some ty, l_message = Some msg, l_key = None, l_data = None,
      l_timestamp = Some now\<rparr>"

section \<open>The Analyze page\<close>

text \<open>Source: \<^verbatim>\<open>src/unnamed/part_000\<close> (\<^verbatim>\<open>frontend/src/pages/AnalyzeData.jsx\<close>).\<close>

record analyze_state =
  a_isMounted :: bool
  a_runStatus :: string
  a_isFetchingDetails :: bool
  a_fetchError :: "string option"
  a_logs :: "log_event list"
  a_analysisResults :: "json option"
  a_toastShown_success :: bool
  a_toastShown_error :: bool
  a_toasts :: "toast list"

text \<open>The \<^verbatim>\<open>useState\<close>/\<^verbatim>\<open>useRef\<close> initial values, after the mount effect has set the flags.\<close>

definition analyze_initial :: analyze_state where
  "analyze_initial =
     \<lparr>a_isMounted = True, a_runStatus = ''LOADING_DETAILS'', a_isFetchingDetails = True,
      a_fetchError = None, a_logs = [], a_analysisResults = None,
      a_toastShown_success = False, a_toastShown_error = False, a_toasts = []\<rparr>"

text \<open>
  The \<^verbatim>\<open>.then\<close> branch of the snapshot fetch (lines 38-67) followed by \<^verbatim>\<open>.finally\<close>:
  \<open>fetched\<close> is \<^verbatim>\<open>details.status\<close>, \<open>results\<close> is \<^verbatim>\<open>details.analysis_results\<close>.
\<close>

definition analyze_fetch_resolved ::
  "string \<Rightarrow> string option \<Rightarrow> json option \<Rightarrow> analyze_state \<Rightarrow> analyze_state" where
  "analyze_fetch_resolved now fetched results st =
     (if \<not> a_isMounted st then st
      else
        let fetchedStatus = (case fetched of None \<Rightarrow> ''UNKNOWN''
                             | Some s \<Rightarrow> if s \<noteq> [] then s else ''UNKNOWN'');
            st1 = (if truthy_json results then st\<lparr>a_analysisResults := results\<rparr> else st);
            isTerminal = (fetchedStatus \<in> set [''SUCCESS'', ''FAILED'', ''ANALYSIS_FAILED'',
                                               ''CLEANING_SUCCESS'', ''CLEANING_FAILED'']);
            isRunning = (fetchedStatus \<in> set [''ANALYZING'', ''CLEANING'', ''TRAINING'']);
            st2 = (if isTerminal \<or> isRunning then st1\<lparr>a_runStatus := fetchedStatus\<rparr>
                   else st1\<lparr>a_runStatus := ''STARTING'',
                           a_logs := a_logs st1 @
                             [client_note ''CLIENT'' ''Requesting analysis task start...'' now]\<rparr>)
        in st2\<lparr>a_isFetchingDetails := False\<rparr>)"

text \<open>The \<^verbatim>\<open>.catch\<close> of the analyze trigger request (lines 59-65).\<close>

definition analyze_trigger_rejected :: "string \<Rightarrow> string \<Rightarrow> analyze_state \<Rightarrow> analyze_state" where
  "analyze_trigger_rejected now errorMsg st =
     (if \<not> a_isMounted st then st
      else st\<lparr>a_toasts := a_toasts st @ [ToastError errorMsg],
              a_runStatus := ''FAILED'',
              a_logs := a_logs st @ [client_note ''ERROR'' (''API Error: '' @ errorMsg) now]\<rparr>)"

text \<open>
  The guard of the WebSocket effect (lines 89-94): the listeners are registered only while
  \<^verbatim>\<open>shouldConnect\<close> holds; the effect depends on \<^verbatim>\<open>runStatus\<close>, so its cleanup removes
  them on the render after the status enters the list.
\<close>

definition analyze_shouldConnect :: "analyze_state \<Rightarrow> bool" where
  "analyze_shouldConnect st =
     (let isTerminal = (a_runStatus st \<in> set [''SUCCESS'', ''FAILED'', ''ANALYSIS_FAILED'',
                                                ''CLEANING_SUCCESS'', ''CLEANING_FAILED'',
                                                ''FETCH_FAILED''])
      in \<not> a_isFetchingDetails st \<and> \<not> truthy_str (a_fetchError st) \<and> \<not> isTerminal)"

definition analyze_handleLog :: "string \<Rightarrow> log_event \<Rightarrow> analyze_state \<Rightarrow> log_event \<times> analyze_state" where
  "analyze_handleLog now lg st =
     (if \<not> a_isMounted st then (lg, st)
      else
        let lg' = stamp_log now lg;
            st1 = st\<lparr>a_logs := a_logs st @ [lg']\<rparr>
        in (lg',
            if l_type lg' = Some ''analysis_result'' \<and> truthy_json (l_data lg')
            then st1\<lparr>a_analysisResults := l_data lg'\<rparr> else st1))"

definition analyze_handleStatusUpdate :: "status_update \<Rightarrow> analyze_state \<Rightarrow> analyze_state" where
  "analyze_handleStatusUpdate update st =
     (if \<not> a_isMounted st then st
      else
        let newStatus = u_status update; prevStatus = a_runStatus st
        in st\<lparr>a_runStatus :=
               (if prevStatus \<in> set [''SUCCESS'', ''FAILED'', ''ANALYSIS_FAILED''] \<and>
                   newStatus \<notin> set [''SUCCESS'', ''FAILED'', ''ANALYSIS_FAILED'']
                then prevStatus else newStatus)\<rparr>)"

text \<open>
  The toast effect (lines 158-166). It tests the identifier \<^verbatim>\<open>status\<close>, which this
  component never declares (its state variable is \<^verbatim>\<open>runStatus\<close>); the value read is the
  parameter \<open>status\<close> here.
\<close>

definition analyze_toast_effect :: "string \<Rightarrow> analyze_state \<Rightarrow> analyze_state" where
  "analyze_toast_effect status st =
     (if status = ''SUCCESS'' \<and> \<not> a_toastShown_success st
      then st\<lparr>a_toasts := a_toasts st @ [ToastSuccess ''Analysis Complete!''],
              a_toastShown_success := True\<rparr>
      else if (status = ''FAILED'' \<or> status = ''ANALYSIS_FAILED'') \<and> \<not> a_toastShown_error st
      then st\<lparr>a_toasts := a_toasts st @ [ToastError ''Analysis Failed. Check logs.''],
              a_toastShown_error := True\<rparr>
      else st)"

section \<open>The Clean page\<close>

text \<open>Source: \<^verbatim>\<open>frontend/src/pages/CleanData.jsx\<close>.\<close>

record clean_state =
  c_isMounted :: bool
  c_status :: string
  c_isLoadingDetails :: bool
  c_runDetails_status :: "string option"
  c_logs :: "log_event list"
  c_cleaningReport :: "json option"
  c_cleanedPreview :: "json option"
  c_cleaningStarted :: bool
  c_toastShown_success :: bool
  c_toastShown_error :: bool
  c_toasts :: "toast list"

text \<open>\<open>c_runDetails_status\<close> is \<open>None\<close> while \<^verbatim>\<open>runDetails\<close> is \<^verbatim>\<open>null\<close>, else \<^verbatim>\<open>runDetails.status\<close>.\<close>

definition clean_initial :: clean_state where
  "clean_initial =
     \<lparr>c_isMounted = True, c_status = ''LOADING_DETAILS'', c_isLoadingDetails = True,
      c_runDetails_status = None, c_logs = [], c_cleaningReport = None,
      c_cleanedPreview = None, c_cleaningStarted = False,
      c_toastShown_success = False, c_toastShown_error = False, c_toasts = []\<rparr>"

definition clean_shouldConnect :: "clean_state \<Rightarrow> bool" where
  "clean_shouldConnect st =
     (let shouldConnect = (c_status st \<in> set [''READY'', ''CLEANING'', ''CLEANING_FAILED'',
                                              ''CONNECTING''])
      in \<not> (c_isLoadingDetails st \<or> c_runDetails_status st = None \<or> \<not> shouldConnect))"

definition clean_onLog :: "string \<Rightarrow> log_event \<Rightarrow> clean_state \<Rightarrow> log_event \<times> clean_state" where
  "clean_onLog now lg st =
     (if \<not> c_isMounted st then (lg, st)
      else
        let lg' = stamp_log now lg;
            st1 = st\<lparr>c_logs := c_logs st @ [lg']\<rparr>
        in (lg',
            if l_type lg' = Some ''cleaning_report'' \<and> truthy_json (l_data lg')
            then
              (let st2 = st1\<lparr>c_cleaningReport := l_data lg'\<rparr>;
                   preview = (case l_data lg' of None \<Rightarrow> None
                              | Some d \<Rightarrow> get_field d ''preview_cleaned_data'')
               in if truthy_json preview then st2\<lparr>c_cleanedPreview := preview\<rparr> else st2)
            else if l_type lg' = Some ''analysis_result'' \<and>
                    l_key lg' = Some ''preview_cleaned_data'' \<and> truthy_json (l_data lg')
            then st1\<lparr>c_cleanedPreview := l_data lg'\<rparr>
            else st1))"

definition clean_onStatusUpdate :: "status_update \<Rightarrow> clean_state \<Rightarrow> clean_state" where
  "clean_onStatusUpdate update st =
     (if \<not> c_isMounted st then st
      else
        let newStatus = u_status update; currentStatus = c_status st
        in if newStatus \<in> set [''CLEANING'', ''CLEANING_SUCCESS'', ''CLEANING_FAILED'', ''FAILED'']
           then
             (if currentStatus \<in> set [''CLEANING_SUCCESS'', ''CLEANING_FAILED'', ''FAILED'']
              then st
              else (if newStatus = ''CLEANING_FAILED'' then st\<lparr>c_cleaningStarted := False\<rparr> else st)
                     \<lparr>c_status := newStatus\<rparr>)
           else st)"

definition clean_toast_effect :: "clean_state \<Rightarrow> clean_state" where
  "clean_toast_effect st =
     (if c_status st = ''CLEANING_SUCCESS'' \<and> \<not> c_toastShown_success st
      then st\<lparr>c_toasts := c_toasts st @ [ToastSuccess ''Data Cleaning Complete!''],
              c_toastShown_success := True\<rparr>
      else if c_status st = ''CLEANING_FAILED'' \<and> \<not> c_toastShown_error st
      then st\<lparr>c_toasts := c_toasts st @ [ToastError ''Data Cleaning Failed. Check logs.''],
              c_toastShown_error := True\<rparr>
      else st)"

text \<open>
  \<^verbatim>\<open>handleStartCleaning\<close> (lines 191-220) up to the request being sent; \<open>now1\<close> and \<open>now2\<close>
  are its two clock readings. The second \<^verbatim>\<open>setLogs\<close> appends to the list the first one
  installed.
\<close>

definition clean_handleStartCleaning :: "string \<Rightarrow> string \<Rightarrow> clean_state \<Rightarrow> clean_state" where
  "clean_handleStartCleaning now1 now2 st =
     (if c_status st \<noteq> ''READY'' \<and> c_status st \<noteq> ''CLEANING_FAILED'' then st
      else st\<lparr>c_cleaningStarted := True,
              c_cleaningReport := None,
              c_cleanedPreview := None,
              c_logs := [client_note ''CLIENT'' ''Resetting state for new cleaning run...'' now1]
                        @ [client_note ''CLIENT'' ''Cleaning task requested...'' now2],
              c_toastShown_success := False,
              c_toastShown_error := False,
              c_status := ''CLEANING'',
              c_toasts := c_toasts st @ [ToastLoading ''Starting data cleaning...'']\<rparr>)"


section \<open>The Training page\<close>

text \<open>
  Source: \<^verbatim>\<open>frontend/src/pages/Training.jsx\<close>. The progress record holds whatever
  fields the events have supplied so far; an absent field is \<open>None\<close>.
\<close>

record progress =
  p_epoch :: "int option"
  p_total_epochs :: "int option"
  p_step_name :: "string option"
  p_batch :: "int option"
  p_total_batches :: "int option"
  p_current_step :: "int option"
  p_total_steps :: "int option"
  p_timestamp :: "string option"

definition initial_progress :: progress where
  "initial_progress =
     \<lparr>p_epoch = Some 0, p_total_epochs = Some 0, p_step_name = Some ''Step'',
      p_batch = Some 0, p_total_batches = Some 0, p_current_step = None,
      p_total_steps = None, p_timestamp = None\<rparr>"

record 'v train_state =
  t_isMounted :: bool
  t_runStatus :: string
  t_isFetchingDetails :: bool
  t_fetchError :: "string option"
  t_taskType :: "string option"
  t_logs :: "log_event list"
  t_metrics :: "'v metric option"
  t_progress :: progress
  t_metricData :: "'v metricData"
  t_toasts :: "toast list"

definition train_initial :: "'v train_state" where
  "train_initial =
     \<lparr>t_isMounted = True, t_runStatus = ''LOADING_DETAILS'', t_isFetchingDetails = True,
      t_fetchError = None, t_taskType = None, t_logs = [], t_metrics = None,
      t_progress = initial_progress, t_metricData = initialMetricData, t_toasts = []\<rparr>"

text \<open>
  The guard of the WebSocket effect (lines 94-102). The effect depends on \<^verbatim>\<open>runStatus\<close>
  and \<^verbatim>\<open>taskType\<close>: its cleanup removes the listeners on the render after the status
  enters the list.
\<close>

definition train_shouldConnect :: "'v train_state \<Rightarrow> bool" where
  "train_shouldConnect st =
     (if t_isFetchingDetails st \<or> truthy_str (t_fetchError st) \<or> \<not> truthy_str (t_taskType st)
      then False
      else
        let isTerminal = (t_runStatus st \<in> set [''SUCCESS'', ''FAILED'', ''FETCH_FAILED'',
                                                  ''CANCELLED''])
        in \<not> isTerminal)"

definition train_onLog :: "string \<Rightarrow> log_event \<Rightarrow> 'v train_state \<Rightarrow> log_event \<times> 'v train_state" where
  "train_onLog now lg st =
     (if \<not> t_isMounted st then (lg, st)
      else let lg' = stamp_log now lg in (lg', st\<lparr>t_logs := t_logs st @ [lg']\<rparr>))"

definition stamp_metric :: "string \<Rightarrow> 'v metric \<Rightarrow> 'v metric" where
  "stamp_metric now m =
     (if \<not> truthy_str (m_timestamp m) then m\<lparr>m_timestamp := Some now\<rparr> else m)"

text \<open>
  \<^verbatim>\<open>metric.epoch ?? metric.estimator ?? metric.iteration ?? progress.current_step ?? 0\<close>.
  \<open>captured\<close> is the \<^verbatim>\<open>progress\<close> value the handler closed over when the effect ran.
\<close>

definition resolve_stepLabel :: "'v metric \<Rightarrow> progress \<Rightarrow> int" where
  "resolve_stepLabel m captured =
     (case m_epoch m of Some e \<Rightarrow> e | None \<Rightarrow>
      (case m_estimator m of Some e \<Rightarrow> e | None \<Rightarrow>
       (case m_iteration m of Some i \<Rightarrow> i | None \<Rightarrow>
        (case p_current_step captured of Some c \<Rightarrow> c | None \<Rightarrow> 0))))"

definition resolve_totalSteps :: "'v metric \<Rightarrow> progress \<Rightarrow> int" where
  "resolve_totalSteps m captured =
     (case m_total_epochs m of Some e \<Rightarrow> e | None \<Rightarrow>
      (case m_total_estimators m of Some e \<Rightarrow> e | None \<Rightarrow>
       (case m_total_iterations m of Some i \<Rightarrow> i | None \<Rightarrow>
        (case p_total_steps captured of Some c \<Rightarrow> c | None \<Rightarrow> 0))))"

text \<open>\<^verbatim>\<open>metric.step_name || prev.step_name || 'Step'\<close>\<close>

definition resolve_step_name :: "string option \<Rightarrow> string option \<Rightarrow> string" where
  "resolve_step_name a b =
     (case a of Some s \<Rightarrow> if s \<noteq> [] then s
                         else (case b of Some t \<Rightarrow> if t \<noteq> [] then t else ''Step'' | None \<Rightarrow> ''Step'')
      | None \<Rightarrow> (case b of Some t \<Rightarrow> if t \<noteq> [] then t else ''Step'' | None \<Rightarrow> ''Step''))"

definition train_onMetric ::
  "string \<Rightarrow> progress \<Rightarrow> 'v metric \<Rightarrow> 'v train_state \<Rightarrow> 'v metric \<times> 'v train_state" where
  "train_onMetric now captured m st =
     (case t_taskType st of
        None \<Rightarrow> (m, st)
      | Some taskType \<Rightarrow>
          if \<not> t_isMounted st \<or> taskType = [] then (m, st)
          else
            let m' = stamp_metric now m;
                stepLabel = resolve_stepLabel m' captured;
                totalSteps = resolve_totalSteps m' captured
            in (m',
                st\<lparr>t_metrics := Some m',
                   t_progress := (t_progress st)
                     \<lparr>p_current_step := Some stepLabel,
                      p_total_steps := Some totalSteps,
                      p_step_name := Some (resolve_step_name (m_step_name m')
                                             (p_step_name (t_progress st)))\<rparr>,
                   t_metricData := setMetricData_updater taskType stepLabel m' (t_metricData st)\<rparr>))"

definition stamp_progress :: "string \<Rightarrow> progress \<Rightarrow> progress" where
  "stamp_progress now prog =
     (if \<not> truthy_str (p_timestamp prog) then prog\<lparr>p_timestamp := Some now\<rparr> else prog)"

text \<open>\<^verbatim>\<open>{ ...prev, ...prog }\<close>: a field the event carries replaces the previous one.\<close>

definition override :: "'a option \<Rightarrow> 'a option \<Rightarrow> 'a option" where
  "override prev new = (case new of Some v \<Rightarrow> Some v | None \<Rightarrow> prev)"

definition merge_progress :: "progress \<Rightarrow> progress \<Rightarrow> progress" where
  "merge_progress prev prog =
     \<lparr>p_epoch = override (p_epoch prev) (p_epoch prog),
      p_total_epochs = override (p_total_epochs prev) (p_total_epochs prog),
      p_step_name = override (p_step_name prev) (p_step_name prog),
      p_batch = override (p_batch prev) (p_batch prog),
      p_total_batches = override (p_total_batches prev) (p_total_batches prog),
      p_current_step = override (p_current_step prev) (p_current_step prog),
      p_total_steps = override (p_total_steps prev) (p_total_steps prog),
      p_timestamp = override (p_timestamp prev) (p_timestamp prog)\<rparr>"

definition train_onProgress :: "string \<Rightarrow> progress \<Rightarrow> 'v train_state \<Rightarrow> progress \<times> 'v train_state" where
  "train_onProgress now prog st =
     (if \<not> t_isMounted st then (prog, st)
      else let prog' = stamp_progress now prog
           in (prog', st\<lparr>t_progress := merge_progress (t_progress st) prog'\<rparr>))"

text \<open>\<^verbatim>\<open>onStatusUpdate\<close> (lines 200-212): the status is stored as received, then the toast.\<close>

definition train_onStatusUpdate :: "status_update \<Rightarrow> 'v train_state \<Rightarrow> 'v train_state" where
  "train_onStatusUpdate update st =
     (if \<not> t_isMounted st then st
      else
        let newStatus = u_status update;
            st1 = st\<lparr>t_runStatus := newStatus\<rparr>
        in if newStatus = ''SUCCESS''
           then st1\<lparr>t_toasts := t_toasts st1 @ [ToastSuccess ''Training Completed Successfully!'']\<rparr>
           else if newStatus = ''FAILED'' \<or> newStatus = ''ANALYSIS_FAILED'' \<or>
                   newStatus = ''CLEANING_FAILED''
           then st1\<lparr>t_toasts := t_toasts st1 @ [ToastError ''Process Failed. Please check the logs.'']\<rparr>
           else if newStatus = ''CANCELLED''
           then st1\<lparr>t_toasts := t_toasts st1 @ [ToastSuccess ''Training stopped.'']\<rparr>
           else st1)"

text \<open>
  The WebSocket effect of the Training page as far as registration goes (lines 93-222).
  Past the guard it calls \<^verbatim>\<open>connectSocket()\<close>, builds the handlers above and reaches
  \<^verbatim>\<open>socket.on('connect', onConnect)\<close> at line 215. The module binds no \<^verbatim>\<open>socket\<close>: line 10
  imports only \<^verbatim>\<open>connectSocket\<close>, \<^verbatim>\<open>disconnectSocket\<close>, \<^verbatim>\<open>joinTrainingRoom\<close> and
  \<^verbatim>\<open>leaveTrainingRoom\<close>. Evaluating the identifier throws before a single listener is
  registered. The result says whether the listeners are registered.
\<close>

datatype js_error = ReferenceError string

definition train_websocket_effect :: "'v train_state \<Rightarrow> js_error + bool" where
  "train_websocket_effect st =
     (if \<not> train_shouldConnect st then Inr False
      else Inl (ReferenceError ''socket is not defined''))"

text \<open>
  The events the Training page consumes, and what its handlers do with one of them. The
  first component of the result is the event object as the handler leaves it.
\<close>

datatype 'v run_event =
  Log log_event | Metric "'v metric" | Progress progress | StatusUpdate status_update

definition event_timestamp :: "'v run_event \<Rightarrow> string option" where
  "event_timestamp ev =
     (case ev of Log l \<Rightarrow> l_timestamp l | Metric m \<Rightarrow> m_timestamp m
      | Progress p \<Rightarrow> p_timestamp p | StatusUpdate u \<Rightarrow> u_timestamp u)"

definition train_receive ::
  "string \<Rightarrow> progress \<Rightarrow> 'v run_event \<Rightarrow> 'v train_state \<Rightarrow> 'v run_event \<times> 'v train_state" where
  "train_receive now captured ev st =
     (case ev of
        Log l \<Rightarrow> (case train_onLog now l st of (l', st') \<Rightarrow> (Log l', st'))
      | Metric m \<Rightarrow> (case train_onMetric now captured m st of (m', st') \<Rightarrow> (Metric m', st'))
      | Progress p \<Rightarrow> (case train_onProgress now p st of (p', st') \<Rightarrow> (Progress p', st'))
      | StatusUpdate u \<Rightarrow> (StatusUpdate u, train_onStatusUpdate u st))"

text \<open>
  The progress bar (line 392):
  \<^verbatim>\<open>((progress.epoch || progress.current_step || 0) / (progress.total_epochs || progress.total_steps || 1)) * 100\<close>.
  \<^verbatim>\<open>a || d\<close> on a number takes \<open>d\<close> when \<open>a\<close> is absent or zero. The quotient is taken in
  the rationals.
\<close>

definition or_num :: "int option \<Rightarrow> int \<Rightarrow> int" where
  "or_num a d = (case a of None \<Rightarrow> d | Some n \<Rightarrow> if n \<noteq> 0 then n else d)"

definition progress_numerator :: "progress \<Rightarrow> int" where
  "progress_numerator p = or_num (p_epoch p) (or_num (p_current_step p) 0)"

definition progress_denominator :: "progress \<Rightarrow> int" where
  "progress_denominator p = or_num (p_total_epochs p) (or_num (p_total_steps p) 1)"

definition progress_percent :: "progress \<Rightarrow> rat" where
  "progress_percent p = of_int (progress_numerator p) / of_int (progress_denominator p) * 100"

section \<open>Socket events and renders\<close>

text \<open>
  A handler sees a socket event only while it is registered, and registration changes only
  when the page renders: the WebSocket effect lists the status among its dependencies, so
  on the render after a status change its cleanup removes the listeners and its body
  registers them again if its guard holds. The toast effect of the Analyze and Clean pages
  depends on the status alone and runs on the render after the status changed. A mounted
  page is therefore its state together with whether its listeners are registered and the
  status it last rendered with; between two renders any number of events may arrive.
\<close>

record 'p live =
  page :: 'p
  listening :: bool
  rendered_status :: string

datatype page_step = StatusEvent status_update | Render

definition analyze_step :: "string \<Rightarrow> analyze_state live \<Rightarrow> page_step \<Rightarrow> analyze_state live" where
  "analyze_step status L s =
     (case s of
        StatusEvent update \<Rightarrow>
          if listening L then L\<lparr>page := analyze_handleStatusUpdate update (page L)\<rparr> else L
      | Render \<Rightarrow>
          let p = (if a_runStatus (page L) \<noteq> rendered_status L
                   then analyze_toast_effect status (page L) else page L)
          in \<lparr>page = p, listening = analyze_shouldConnect p, rendered_status = a_runStatus p\<rparr>)"

definition analyze_run :: "string \<Rightarrow> analyze_state live \<Rightarrow> page_step list \<Rightarrow> analyze_state live" where
  "analyze_run status L steps = foldl (analyze_step status) L steps"

definition clean_step :: "clean_state live \<Rightarrow> page_step \<Rightarrow> clean_state live" where
  "clean_step L s =
     (case s of
        StatusEvent update \<Rightarrow>
          if listening L then L\<lparr>page := clean_onStatusUpdate update (page L)\<rparr> else L
      | Render \<Rightarrow>
          let p = (if c_status (page L) \<noteq> rendered_status L
                   then clean_toast_effect (page L) else page L)
          in \<lparr>page = p, listening = clean_shouldConnect p, rendered_status = c_status p\<rparr>)"

definition clean_run :: "clean_state live \<Rightarrow> page_step list \<Rightarrow> clean_state live" where
  "clean_run L steps = foldl clean_step L steps"

text \<open>The user pressing the cleaning button (\<^verbatim>\<open>onClick={handleStartCleaning}\<close>).\<close>

definition clean_click_start :: "string \<Rightarrow> string \<Rightarrow> clean_state live \<Rightarrow> clean_state live" where
  "clean_click_start now1 now2 L = L\<lparr>page := clean_handleStartCleaning now1 now2 (page L)\<rparr>"

text \<open>
  The Training page: a render leaves its listeners registered only if the effect got that
  far. Its toasts are raised inside the handler, not by an effect.
\<close>

definition train_step :: "'v train_state live \<Rightarrow> page_step \<Rightarrow> 'v train_state live" where
  "train_step L s =
     (case s of
        StatusEvent update \<Rightarrow>
          if listening L then L\<lparr>page := train_onStatusUpdate update (page L)\<rparr> else L
      | Render \<Rightarrow>
          L\<lparr>listening := (case train_websocket_effect (page L) of
                             Inl err \<Rightarrow> False | Inr registered \<Rightarrow> registered),
            rendered_status := t_runStatus (page L)\<rparr>)"

definition train_run :: "'v train_state live \<Rightarrow> page_step list \<Rightarrow> 'v train_state live" where
  "train_run L steps = foldl train_step L steps"

section \<open>Browser state, the socket wrappers and the API client\<close>

text \<open>
  Source: \<^verbatim>\<open>frontend/src/lib/auth.js\<close>, which holds the auth store (lines 1-112), the
  wrapper \<^verbatim>\<open>socket_enhanced\<close> (lines 114-256) and the wrapper \<^verbatim>\<open>socket\<close> (lines 256-338);
  \<^verbatim>\<open>src/unnamed/part_004\<close>, a third wrapper;
  \<^verbatim>\<open>frontend/src/lib/api.js\<close>. The socket records every call of \<^verbatim>\<open>socket.emit\<close> and
  \<^verbatim>\<open>socket.on\<close> in order. \<open>auth_accessToken\<close> is the copy of the token the auth store
  keeps in memory.
\<close>

datatype out_msg = Join_room string string | Leave_room string

record socket =
  connected :: bool
  emitted :: "out_msg list"
  listeners :: "string list"

record browser =
  localStorage :: "string \<Rightarrow> string option"
  location_href :: string
  auth_accessToken :: "string option"
  sock :: socket

datatype join_promise = Rejected string | Pending

text \<open>
  \<^verbatim>\<open>joinTrainingRoom\<close> of \<^verbatim>\<open>socket_enhanced\<close> (lines 175-222), up to its return. The
  token is \<^verbatim>\<open>localStorage.getItem('access_token')\<close>; \<^verbatim>\<open>!token\<close> holds for \<^verbatim>\<open>null\<close> and for
  the empty string. The promise is rejected at once or left pending on the server's reply.
\<close>

definition joinTrainingRoom_enhanced :: "string \<Rightarrow> browser \<Rightarrow> join_promise \<times> browser" where
  "joinTrainingRoom_enhanced modelRunId b =
     (case localStorage b ''access_token'' of
        None \<Rightarrow> (Rejected ''No auth token found, cannot join room.'', b)
      | Some token \<Rightarrow>
          if token = [] then (Rejected ''No auth token found, cannot join room.'', b)
          else
            (Pending,
             b\<lparr>sock := (sock b)
                 \<lparr>emitted := emitted (sock b) @ [Join_room token modelRunId],
                  listeners := listeners (sock b) @
                    [''room_joined'', ''room_error'', ''room_joined'']\<rparr>\<rparr>))"

text \<open>\<^verbatim>\<open>joinTrainingRoom\<close> of \<^verbatim>\<open>socket\<close> (lines 304-322): the reply comes as an acknowledgement.\<close>

definition joinTrainingRoom :: "string \<Rightarrow> browser \<Rightarrow> join_promise \<times> browser" where
  "joinTrainingRoom modelRunId b =
     (case localStorage b ''access_token'' of
        None \<Rightarrow> (Rejected ''No auth token found, cannot join room.'', b)
      | Some token \<Rightarrow>
          if token = [] then (Rejected ''No auth token found, cannot join room.'', b)
          else
            (Pending,
             b\<lparr>sock := (sock b)\<lparr>emitted := emitted (sock b) @ [Join_room token modelRunId]\<rparr>\<rparr>))"

text \<open>
  The third wrapper, \<^verbatim>\<open>src/unnamed/part_004\<close> lines 113-185. Its \<^verbatim>\<open>joinTrainingRoom\<close>
  (lines 150-162) returns no promise: without a token it logs an error and returns
  \<^verbatim>\<open>undefined\<close>, with one it emits \<^verbatim>\<open>join_room\<close> and returns \<^verbatim>\<open>undefined\<close> as well.
\<close>

datatype join_return = Returns_undefined | Returns_promise join_promise

definition joinTrainingRoom_plain :: "string \<Rightarrow> browser \<Rightarrow> join_return \<times> browser" where
  "joinTrainingRoom_plain modelRunId b =
     (case localStorage b ''access_token'' of
        None \<Rightarrow> (Returns_undefined, b)
      | Some token \<Rightarrow>
          if token = [] then (Returns_undefined, b)
          else
            (Returns_undefined,
             b\<lparr>sock := (sock b)\<lparr>emitted := emitted (sock b) @ [Join_room token modelRunId]\<rparr>\<rparr>))"

text \<open>Whether what a call returned is a promise that has been rejected.\<close>

definition is_rejected :: "join_return \<Rightarrow> bool" where
  "is_rejected r =
     (case r of Returns_undefined \<Rightarrow> False
      | Returns_promise p \<Rightarrow> (case p of Rejected msg \<Rightarrow> True | Pending \<Rightarrow> False))"

text \<open>\<^verbatim>\<open>leaveTrainingRoom\<close> of \<^verbatim>\<open>socket_enhanced\<close> (lines 227-230).\<close>

definition leaveTrainingRoom_enhanced :: "string \<Rightarrow> browser \<Rightarrow> browser" where
  "leaveTrainingRoom_enhanced modelRunId b =
     b\<lparr>sock := (sock b)\<lparr>emitted := emitted (sock b) @ [Leave_room modelRunId]\<rparr>\<rparr>"

text \<open>\<^verbatim>\<open>leaveTrainingRoom\<close> of \<^verbatim>\<open>socket\<close> (lines 327-332).\<close>

definition leaveTrainingRoom :: "string \<Rightarrow> browser \<Rightarrow> browser" where
  "leaveTrainingRoom modelRunId b =
     (if connected (sock b)
      then b\<lparr>sock := (sock b)\<lparr>emitted := emitted (sock b) @ [Leave_room modelRunId]\<rparr>\<rparr>
      else b)"

text \<open>
  The response interceptor of \<^verbatim>\<open>api.js\<close> (lines 36-68). \<open>e_status\<close> is
  \<^verbatim>\<open>error.response.status\<close>, \<open>None\<close> when there is no \<^verbatim>\<open>error.response\<close>.
\<close>

record api_error =
  e_status :: "nat option"
  e_message :: string

datatype api_result = Fulfilled nat | Failed api_error

definition response_fulfilled :: "nat \<Rightarrow> browser \<Rightarrow> api_result \<times> browser" where
  "response_fulfilled response b = (Fulfilled response, b)"

definition response_rejected :: "api_error \<Rightarrow> browser \<Rightarrow> api_result \<times> browser" where
  "response_rejected err b =
     (let b1 = (if e_status err = Some 401
                then b\<lparr>localStorage := (localStorage b)(''access_token'' := None, ''user'' := None),
                       location_href := ''/login''\<rparr>
                else b);
          err1 = (if e_status err = None
                  then err\<lparr>e_message := ''Network error. Please check your connection and try again.''\<rparr>
                  else err);
          err2 = (case e_status err of
                    Some s \<Rightarrow> if s \<ge> 500
                              then err1\<lparr>e_message := ''Server error. Please try again later.''\<rparr>
                              else err1
                  | None \<Rightarrow> err1)
      in (Failed err2, b1))"

text \<open>
  How the HTTP library settles a request before the interceptor runs: a response with a
  status from 200 to 299 goes to the first function, any other response and a request that
  got no response go to the second one (its default \<^verbatim>\<open>validateStatus\<close>).
\<close>

definition api_settle :: "nat option \<Rightarrow> string \<Rightarrow> browser \<Rightarrow> api_result \<times> browser" where
  "api_settle response msg b =
     (case response of
        None \<Rightarrow> response_rejected \<lparr>e_status = None, e_message = msg\<rparr> b
      | Some s \<Rightarrow>
          if 200 \<le> s \<and> s < 300 then response_fulfilled s b
          else response_rejected \<lparr>e_status = Some s, e_message = msg\<rparr> b)"


section \<open>Notions used in the statements and proofs\<close>

text \<open>
  The partition the statement of monotonic terminality refers to: the statuses it calls
  terminal. The pages themselves carry the shorter lists written in their guards above.
\<close>

definition terminal_statuses :: "string list" where
  "terminal_statuses =
     [''SUCCESS'', ''FAILED'', ''ANALYSIS_FAILED'', ''CLEANING_FAILED'', ''CLEANING_SUCCESS'',
      ''CANCELLED'', ''FETCH_FAILED'']"

text \<open>
  The progress ratio as the statement of the division guard words it: a total that is zero
  or negative counts as 1.
\<close>

definition stated_progress_percent :: "int \<Rightarrow> int \<Rightarrow> rat" where
  "stated_progress_percent currentStep totalSteps =
     of_int currentStep / of_int (if totalSteps \<le> 0 then 1 else totalSteps) * 100"

text \<open>
  The number a counter field of the progress record holds, an absent field counting as 0:
  \<^verbatim>\<open>||\<close> passes over both alike.
\<close>

definition field_value :: "int option \<Rightarrow> int" where
  "field_value x = (case x of None \<Rightarrow> 0 | Some n \<Rightarrow> n)"

text \<open>Dropping the \<open>k\<close> oldest points of a chart, and the shape every reachable chart state has.\<close>

definition drop_chart :: "nat \<Rightarrow> 'v chart \<Rightarrow> 'v chart" where
  "drop_chart k c =
     \<lparr>labels = drop k (labels c), train_data = drop k (train_data c),
      val_data = drop k (val_data c)\<rparr>"

definition chart_wf :: "'v metricData \<Rightarrow> bool" where
  "chart_wf md \<longleftrightarrow>
     labels (secondary md) = labels (primary md) \<and>
     distinct (labels (primary md)) \<and>
     length (train_data (primary md)) = length (labels (primary md)) \<and>
     length (val_data (primary md)) = length (labels (primary md)) \<and>
     length (train_data (secondary md)) = length (labels (primary md)) \<and>
     length (val_data (secondary md)) = length (labels (primary md)) \<and>
     length (labels (primary md)) \<le> maxPoints"

text \<open>The charts a list of events with distinct labels would give without the cap.\<close>

definition uncapped_primary :: "string \<Rightarrow> (int \<times> 'v metric) list \<Rightarrow> 'v chart" where
  "uncapped_primary taskType evs =
     \<lparr>labels = map fst evs,
      train_data = map (\<lambda>ev. trainP taskType (snd ev)) evs,
      val_data = map (\<lambda>ev. valP taskType (snd ev)) evs\<rparr>"

definition uncapped_secondary :: "string \<Rightarrow> (int \<times> 'v metric) list \<Rightarrow> 'v chart" where
  "uncapped_secondary taskType evs =
     \<lparr>labels = map fst evs,
      train_data = map (\<lambda>ev. trainS taskType (snd ev)) evs,
      val_data = map (\<lambda>ev. valS taskType (snd ev)) evs\<rparr>"

subsection \<open>Concrete inputs\<close>

definition sample_metric :: "int \<Rightarrow> int metric" where
  "sample_metric n =
     \<lparr>m_epoch = Some n, m_estimator = None, m_iteration = None,
      m_total_epochs = Some 200, m_total_estimators = None, m_total_iterations = None,
      m_step_name = None, m_timestamp = None,
      m_values = (\<lambda>k. if k = ''train_accuracy'' then Some n else None)\<rparr>"

definition sample_events :: "(int \<times> int metric) list" where
  "sample_events = map (\<lambda>n. (int n, sample_metric (int n))) [0..<200]"

text \<open>
  The pages once the snapshot fetch has resolved with the given status (for the Training
  page, with task type classification).
\<close>

definition analyze_loaded :: "string \<Rightarrow> analyze_state" where
  "analyze_loaded s = analyze_initial\<lparr>a_runStatus := s, a_isFetchingDetails := False\<rparr>"

definition clean_loaded :: "string \<Rightarrow> clean_state" where
  "clean_loaded s =
     clean_initial\<lparr>c_status := s, c_isLoadingDetails := False, c_runDetails_status := Some s\<rparr>"

definition train_loaded :: "string \<Rightarrow> int train_state" where
  "train_loaded s =
     train_initial\<lparr>t_runStatus := s, t_isFetchingDetails := False,
                   t_taskType := Some ''classification''\<rparr>"

definition status_update_of :: "string \<Rightarrow> status_update" where
  "status_update_of s = \<lparr>u_status = s, u_timestamp = None\<rparr>"

definition sample_log :: log_event where
  "sample_log =
     \<lparr>l_type = Some ''log'', l_message = Some ''Removed 3 duplicate rows'', l_key = None,
      l_data = None, l_timestamp = None\<rparr>"

definition sample_progress :: progress where
  "sample_progress =
     \<lparr>p_epoch = None, p_total_epochs = None, p_step_name = Some ''Epoch'', p_batch = None,
      p_total_batches = None, p_current_step = Some 1, p_total_steps = Some (- 2),
      p_timestamp = None\<rparr>"

definition sample_browser :: "string option \<Rightarrow> bool \<Rightarrow> browser" where
  "sample_browser token conn =
     \<lparr>localStorage = (\<lambda>k. if k = ''access_token'' then token
                          else if k = ''user'' then Some ''{}'' else None),
      location_href = ''/run/7/train'',
      auth_accessToken = Some ''stale'',
      sock = \<lparr>connected = conn, emitted = [], listeners = []\<rparr>\<rparr>"

text \<open>Epoch 3 of 10 while the step counters say 5 of 10.\<close>

definition sample_progress_epochs :: progress where
  "sample_progress_epochs =
     \<lparr>p_epoch = Some 3, p_total_epochs = Some 10, p_step_name = Some ''Epoch'', p_batch = None,
      p_total_batches = None, p_current_step = Some 5, p_total_steps = Some 10,
      p_timestamp = None\<rparr>"

text \<open>
  A page whose snapshot fetch has just resolved and which has not rendered since: no
  listener is registered yet and the last render saw the initial status.
\<close>

definition just_fetched :: "'p \<Rightarrow> 'p live" where
  "just_fetched p = \<lparr>page = p, listening = False, rendered_status = ''LOADING_DETAILS''\<rparr>"

text \<open>
  The Clean page, loaded at READY: the user starts cleaning and the server reports
  CLEANING_FAILED; the user retries and the server reports CLEANING_FAILED again.
\<close>

definition clean_first_failure :: "clean_state live" where
  "clean_first_failure =
     clean_run
       (clean_click_start ''2026-01-01T00:00:00.000Z'' ''2026-01-01T00:00:00.001Z''
          (clean_run (just_fetched (clean_loaded ''READY'')) [Render]))
       [Render, StatusEvent (status_update_of ''CLEANING_FAILED''), Render]"

definition clean_second_failure :: "clean_state live" where
  "clean_second_failure =
     clean_run
       (clean_click_start ''2026-01-01T00:05:00.000Z'' ''2026-01-01T00:05:00.001Z''
          clean_first_failure)
       [Render, StatusEvent (status_update_of ''CLEANING_FAILED''), Render]"

declare evict.simps [simp del]

section \<open>The status reconciler\<close>

lemma analyze_handleStatusUpdate_guard:
  "a_runStatus st \<in> set [''SUCCESS'', ''FAILED'', ''ANALYSIS_FAILED''] \<Longrightarrow>
   a_runStatus (analyze_handleStatusUpdate u st) \<in> set [''SUCCESS'', ''FAILED'', ''ANALYSIS_FAILED'']"
  by (simp add: analyze_handleStatusUpdate_def Let_def)

lemma analyze_handleStatusUpdate_foldl:
  "a_runStatus st \<in> set [''SUCCESS'', ''FAILED'', ''ANALYSIS_FAILED''] \<Longrightarrow>
   a_runStatus (foldl (\<lambda>s u. analyze_handleStatusUpdate u s) st us)
     \<in> set [''SUCCESS'', ''FAILED'', ''ANALYSIS_FAILED'']"
proof (induction us arbitrary: st)
  case Nil
  then show ?case by simp
next
  case (Cons u us)
  have "a_runStatus (analyze_handleStatusUpdate u st)
          \<in> set [''SUCCESS'', ''FAILED'', ''ANALYSIS_FAILED'']"
    using Cons.prems by (rule analyze_handleStatusUpdate_guard)
  then show ?case
    using Cons.IH by simp
qed

lemma clean_onStatusUpdate_terminal:
  "c_status st \<in> set [''CLEANING_SUCCESS'', ''CLEANING_FAILED'', ''FAILED''] \<Longrightarrow>
   clean_onStatusUpdate u st = st"
  by (simp add: clean_onStatusUpdate_def Let_def)

lemma foldl_fixed: "(\<And>u. f st u = st) \<Longrightarrow> foldl f st us = st"
  by (induction us) simp_all

lemma analyze_toast_effect_status: "a_runStatus (analyze_toast_effect w st) = a_runStatus st"
  by (simp add: analyze_toast_effect_def)

lemma analyze_toast_effect_shouldConnect:
  "analyze_shouldConnect (analyze_toast_effect w st) = analyze_shouldConnect st"
  by (simp add: analyze_toast_effect_def analyze_shouldConnect_def)

lemma clean_toast_effect_status: "c_status (clean_toast_effect st) = c_status st"
  by (simp add: clean_toast_effect_def)

lemma analyze_step_guard:
  "a_runStatus (page L) \<in> set [''SUCCESS'', ''FAILED'', ''ANALYSIS_FAILED''] \<Longrightarrow>
   a_runStatus (page (analyze_step w L s)) \<in> set [''SUCCESS'', ''FAILED'', ''ANALYSIS_FAILED'']"
  using analyze_handleStatusUpdate_guard [of "page L"]
  by (cases s) (auto simp: analyze_step_def Let_def analyze_toast_effect_status)

lemma analyze_run_guard:
  "a_runStatus (page L) \<in> set [''SUCCESS'', ''FAILED'', ''ANALYSIS_FAILED''] \<Longrightarrow>
   a_runStatus (page (analyze_run w L steps)) \<in> set [''SUCCESS'', ''FAILED'', ''ANALYSIS_FAILED'']"
  unfolding analyze_run_def
proof (induction steps arbitrary: L)
  case Nil
  then show ?case by simp
next
  case (Cons s steps)
  show ?case
    using Cons.IH [OF analyze_step_guard [OF Cons.prems]] by simp
qed

lemma analyze_step_unregistered:
  assumes "\<not> listening L" and "\<not> analyze_shouldConnect (page L)"
  shows "\<not> listening (analyze_step w L s) \<and>
         \<not> analyze_shouldConnect (page (analyze_step w L s)) \<and>
         a_runStatus (page (analyze_step w L s)) = a_runStatus (page L)"
  using assms
  by (cases s)
     (simp_all add: analyze_step_def Let_def analyze_toast_effect_status
        analyze_toast_effect_shouldConnect)

lemma analyze_run_unregistered:
  "\<not> listening L \<Longrightarrow> \<not> analyze_shouldConnect (page L) \<Longrightarrow>
   a_runStatus (page (analyze_run w L steps)) = a_runStatus (page L)"
  unfolding analyze_run_def
proof (induction steps arbitrary: L)
  case Nil
  then show ?case by simp
next
  case (Cons s steps)
  note st = analyze_step_unregistered [OF Cons.prems, of w s]
  show ?case
    using Cons.IH [of "analyze_step w L s"] st by simp
qed

lemma clean_step_terminal:
  "c_status (page L) \<in> set [''CLEANING_SUCCESS'', ''CLEANING_FAILED'', ''FAILED''] \<Longrightarrow>
   c_status (page (clean_step L s)) = c_status (page L)"
  using clean_onStatusUpdate_terminal [of "page L"]
  by (cases s) (auto simp: clean_step_def Let_def clean_toast_effect_status)

lemma clean_run_terminal:
  "c_status (page L) \<in> set [''CLEANING_SUCCESS'', ''CLEANING_FAILED'', ''FAILED''] \<Longrightarrow>
   c_status (page (clean_run L steps)) = c_status (page L)"
  unfolding clean_run_def
proof (induction steps arbitrary: L)
  case Nil
  then show ?case by simp
next
  case (Cons s steps)
  have eq: "c_status (page (clean_step L s)) = c_status (page L)"
    using Cons.prems by (rule clean_step_terminal)
  show ?case
    using Cons.IH [of "clean_step L s"] Cons.prems eq by simp
qed

text \<open>
  C1, as the code has it. The handler of each page protects its own short list of final
  statuses, whether or not a render falls between the events. On Analyze a status among
  SUCCESS, FAILED, ANALYSIS_FAILED stays among these three under every sequence of
  \<^verbatim>\<open>status_update\<close> events and renders; and once the page has rendered at a status for
  which its effect registers no listener, the status no longer changes at all. On Clean a
  status among CLEANING_SUCCESS, CLEANING_FAILED, FAILED is changed by no
  \<^verbatim>\<open>status_update\<close>; leaving CLEANING_FAILED for CLEANING is the work of
  \<^verbatim>\<open>handleStartCleaning\<close>. Both lists lie inside the seven terminal statuses.
\<close>

theorem guarded_status_stays_guarded:
  "(a_runStatus (page La) \<in> set [''SUCCESS'', ''FAILED'', ''ANALYSIS_FAILED'']
      \<longrightarrow> a_runStatus (page (analyze_run w La steps))
            \<in> set [''SUCCESS'', ''FAILED'', ''ANALYSIS_FAILED''] \<and>
          a_runStatus (foldl (\<lambda>s u. analyze_handleStatusUpdate u s) (page La) us)
            \<in> set [''SUCCESS'', ''FAILED'', ''ANALYSIS_FAILED'']) \<and>
   (\<not> listening La \<and> \<not> analyze_shouldConnect (page La)
      \<longrightarrow> a_runStatus (page (analyze_run w La steps)) = a_runStatus (page La)) \<and>
   (c_status (page Lc) \<in> set [''CLEANING_SUCCESS'', ''CLEANING_FAILED'', ''FAILED'']
      \<longrightarrow> c_status (page (clean_run Lc steps)) = c_status (page Lc) \<and>
          c_status (foldl (\<lambda>s u. clean_onStatusUpdate u s) (page Lc) us) = c_status (page Lc)) \<and>
   set [''SUCCESS'', ''FAILED'', ''ANALYSIS_FAILED''] \<subseteq> set terminal_statuses \<and>
   set [''CLEANING_SUCCESS'', ''CLEANING_FAILED'', ''FAILED''] \<subseteq> set terminal_statuses"
proof (intro conjI impI)
  assume a: "a_runStatus (page La) \<in> set [''SUCCESS'', ''FAILED'', ''ANALYSIS_FAILED'']"
  show "a_runStatus (page (analyze_run w La steps))
            \<in> set [''SUCCESS'', ''FAILED'', ''ANALYSIS_FAILED'']"
    using a by (rule analyze_run_guard)
  show "a_runStatus (foldl (\<lambda>s u. analyze_handleStatusUpdate u s) (page La) us)
            \<in> set [''SUCCESS'', ''FAILED'', ''ANALYSIS_FAILED'']"
    using a by (rule analyze_handleStatusUpdate_foldl)
next
  assume "\<not> listening La \<and> \<not> analyze_shouldConnect (page La)"
  then show "a_runStatus (page (analyze_run w La steps)) = a_runStatus (page La)"
    by (simp add: analyze_run_unregistered)
next
  assume c: "c_status (page Lc) \<in> set [''CLEANING_SUCCESS'', ''CLEANING_FAILED'', ''FAILED'']"
  show "c_status (page (clean_run Lc steps)) = c_status (page Lc)"
    using c by (rule clean_run_terminal)
  have "foldl (\<lambda>s u. clean_onStatusUpdate u s) (page Lc) us = page Lc"
    by (rule foldl_fixed) (rule clean_onStatusUpdate_terminal [OF c])
  then show "c_status (foldl (\<lambda>s u. clean_onStatusUpdate u s) (page Lc) us) = c_status (page Lc)"
    by simp
next
  show "set [''SUCCESS'', ''FAILED'', ''ANALYSIS_FAILED''] \<subseteq> set terminal_statuses"
    by (simp add: terminal_statuses_def)
  show "set [''CLEANING_SUCCESS'', ''CLEANING_FAILED'', ''FAILED''] \<subseteq> set terminal_statuses"
    by (simp add: terminal_statuses_def)
qed

text \<open>
  The theorem at Analyze loaded at SUCCESS and at Clean loaded at CLEANING_FAILED, each
  told of a status that is not final.
\<close>

theorem guarded_status_stays_guarded_witness:
  "a_runStatus (page (analyze_run [] (just_fetched (analyze_loaded ''SUCCESS''))
       [StatusEvent (status_update_of ''ANALYZING''), Render,
        StatusEvent (status_update_of ''ANALYZING'')])) = ''SUCCESS'' \<and>
   a_runStatus (foldl (\<lambda>s u. analyze_handleStatusUpdate u s) (analyze_loaded ''SUCCESS'')
       [status_update_of ''ANALYZING'', status_update_of ''FAILED''])
     \<in> set [''SUCCESS'', ''FAILED'', ''ANALYSIS_FAILED''] \<and>
   c_status (page (clean_run (just_fetched (clean_loaded ''CLEANING_FAILED''))
       [Render, StatusEvent (status_update_of ''CLEANING''), Render])) = ''CLEANING_FAILED'' \<and>
   c_status (foldl (\<lambda>s u. clean_onStatusUpdate u s) (clean_loaded ''CLEANING_FAILED'')
       [status_update_of ''CLEANING'']) = ''CLEANING_FAILED''"
  using guarded_status_stays_guarded
    [of "just_fetched (analyze_loaded ''SUCCESS'')" "[]"
        "[StatusEvent (status_update_of ''ANALYZING''), Render,
          StatusEvent (status_update_of ''ANALYZING'')]"
        "[status_update_of ''ANALYZING'', status_update_of ''FAILED'']"
        "just_fetched (clean_loaded ''CLEANING_FAILED'')"]
    guarded_status_stays_guarded
    [of "just_fetched (analyze_loaded ''SUCCESS'')" "[]"
        "[Render, StatusEvent (status_update_of ''CLEANING''), Render]"
        "[status_update_of ''CLEANING'']"
        "just_fetched (clean_loaded ''CLEANING_FAILED'')"]
  by (simp add: just_fetched_def analyze_loaded_def clean_loaded_def analyze_initial_def
      clean_initial_def analyze_shouldConnect_def)

text \<open>
  C1 as stated fails on the Analyze page. Loaded at ANALYZING with its listeners
  registered, it is told CANCELLED, one of the seven terminal statuses and in neither of
  its lists: the listeners stay registered through the render, and a later
  \<^verbatim>\<open>status_update\<close> to ANALYZING is stored; the handler alone does the same. Told
  CLEANING_SUCCESS and then, before the next render has removed the listeners, ANALYZING,
  the page ends at ANALYZING as well.
\<close>

theorem analyze_cancelled_counterexample:
  "a_runStatus (page (analyze_run [] (just_fetched (analyze_loaded ''ANALYZING''))
       [Render, StatusEvent (status_update_of ''CANCELLED''), Render])) = ''CANCELLED'' \<and>
   ''CANCELLED'' \<in> set terminal_statuses \<and>
   a_runStatus (page (analyze_run [] (just_fetched (analyze_loaded ''ANALYZING''))
       [Render, StatusEvent (status_update_of ''CANCELLED''), Render,
        StatusEvent (status_update_of ''ANALYZING''), Render])) = ''ANALYZING'' \<and>
   ''ANALYZING'' \<notin> set terminal_statuses \<and>
   a_runStatus (analyze_handleStatusUpdate (status_update_of ''ANALYZING'')
       (analyze_handleStatusUpdate (status_update_of ''CANCELLED'')
          (analyze_loaded ''ANALYZING''))) = ''ANALYZING'' \<and>
   ''CLEANING_SUCCESS'' \<in> set terminal_statuses \<and>
   a_runStatus (page (analyze_run [] (just_fetched (analyze_loaded ''ANALYZING''))
       [Render, StatusEvent (status_update_of ''CLEANING_SUCCESS'')])) = ''CLEANING_SUCCESS'' \<and>
   a_runStatus (page (analyze_run [] (just_fetched (analyze_loaded ''ANALYZING''))
       [Render, StatusEvent (status_update_of ''CLEANING_SUCCESS''),
        StatusEvent (status_update_of ''ANALYZING'')])) = ''ANALYZING''"
  by (simp add: analyze_run_def analyze_step_def just_fetched_def analyze_loaded_def
      analyze_initial_def analyze_shouldConnect_def analyze_handleStatusUpdate_def
      analyze_toast_effect_def status_update_of_def terminal_statuses_def truthy_str_def Let_def)

text \<open>
  The Training page registers no listener, so its state is changed by no socket event:
  its \<^verbatim>\<open>onStatusUpdate\<close>, which stores every status it is handed, is never handed one.
\<close>

lemma train_websocket_effect_registers_nothing: "train_websocket_effect st \<noteq> Inr True"
  by (simp add: train_websocket_effect_def)

lemma train_step_unregistered:
  "\<not> listening L \<Longrightarrow>
   \<not> listening (train_step L s) \<and> page (train_step L s) = page L"
  by (cases s) (auto simp: train_step_def train_websocket_effect_def split: sum.splits)

lemma train_run_unregistered:
  "\<not> listening L \<Longrightarrow> page (train_run L steps) = page L"
  unfolding train_run_def
proof (induction steps arbitrary: L)
  case Nil
  then show ?case by simp
next
  case (Cons s steps)
  note st = train_step_unregistered [OF Cons.prems, of s]
  show ?case
    using Cons.IH [of "train_step L s"] st by simp
qed

section \<open>Notifications\<close>

lemma clean_step_notifies_once:
  assumes "c_toasts (page L) = ts \<or>
           (\<exists>x. c_toasts (page L) = ts @ [x] \<and>
                (c_status (page L) = ''CLEANING_SUCCESS'' \<and> c_toastShown_success (page L) \<or>
                 c_status (page L) = ''CLEANING_FAILED'' \<and> c_toastShown_error (page L)))"
  shows "c_toasts (page (clean_step L s)) = ts \<or>
           (\<exists>x. c_toasts (page (clean_step L s)) = ts @ [x] \<and>
                (c_status (page (clean_step L s)) = ''CLEANING_SUCCESS'' \<and>
                   c_toastShown_success (page (clean_step L s)) \<or>
                 c_status (page (clean_step L s)) = ''CLEANING_FAILED'' \<and>
                   c_toastShown_error (page (clean_step L s))))"
proof (cases s)
  case (StatusEvent u)
  show ?thesis
    using assms
    by (auto simp: StatusEvent clean_step_def clean_onStatusUpdate_def Let_def)
next
  case Render
  show ?thesis
    using assms
    by (auto simp: Render clean_step_def clean_toast_effect_def Let_def)
qed

lemma clean_run_notifies_once:
  "\<exists>extra. c_toasts (page (clean_run L steps)) = c_toasts (page L) @ extra \<and> length extra \<le> 1"
proof -
  have "c_toasts (page L) = ts \<or>
           (\<exists>x. c_toasts (page L) = ts @ [x] \<and>
                (c_status (page L) = ''CLEANING_SUCCESS'' \<and> c_toastShown_success (page L) \<or>
                 c_status (page L) = ''CLEANING_FAILED'' \<and> c_toastShown_error (page L)))
        \<Longrightarrow> c_toasts (page (foldl clean_step L steps)) = ts \<or>
            (\<exists>x. c_toasts (page (foldl clean_step L steps)) = ts @ [x])" for ts
  proof (induction steps arbitrary: L)
    case Nil
    then show ?case by auto
  next
    case (Cons s steps)
    show ?case
      using Cons.IH [OF clean_step_notifies_once [OF Cons.prems]] by simp
  qed
  from this [of "c_toasts (page L)"]
  have "c_toasts (page (clean_run L steps)) = c_toasts (page L) \<or>
        (\<exists>x. c_toasts (page (clean_run L steps)) = c_toasts (page L) @ [x])"
    by (simp add: clean_run_def)
  then show ?thesis
  proof
    assume "c_toasts (page (clean_run L steps)) = c_toasts (page L)"
    then have "c_toasts (page (clean_run L steps)) = c_toasts (page L) @ [] \<and> length ([] :: toast list) \<le> 1"
      by simp
    then show ?thesis by blast
  next
    assume "\<exists>x. c_toasts (page (clean_run L steps)) = c_toasts (page L) @ [x]"
    then obtain x where "c_toasts (page (clean_run L steps)) = c_toasts (page L) @ [x]" ..
    then have "c_toasts (page (clean_run L steps)) = c_toasts (page L) @ [x] \<and> length [x] \<le> 1"
      by simp
    then show ?thesis by blast
  qed
qed

lemma analyze_step_notifies_once:
  assumes "a_toasts (page L) = ts \<or>
           (\<exists>x. a_toasts (page L) = ts @ [x] \<and>
                (w = ''SUCCESS'' \<and> a_toastShown_success (page L) \<or>
                 (w = ''FAILED'' \<or> w = ''ANALYSIS_FAILED'') \<and> a_toastShown_error (page L)))"
  shows "a_toasts (page (analyze_step w L s)) = ts \<or>
           (\<exists>x. a_toasts (page (analyze_step w L s)) = ts @ [x] \<and>
                (w = ''SUCCESS'' \<and> a_toastShown_success (page (analyze_step w L s)) \<or>
                 (w = ''FAILED'' \<or> w = ''ANALYSIS_FAILED'') \<and>
                   a_toastShown_error (page (analyze_step w L s))))"
proof (cases s)
  case (StatusEvent u)
  show ?thesis
    using assms
    by (auto simp: StatusEvent analyze_step_def analyze_handleStatusUpdate_def Let_def)
next
  case Render
  show ?thesis
    using assms
    by (auto simp: Render analyze_step_def analyze_toast_effect_def Let_def)
qed

lemma analyze_run_notifies_once:
  "\<exists>extra. a_toasts (page (analyze_run w L steps)) = a_toasts (page L) @ extra \<and>
           length extra \<le> 1"
proof -
  have "a_toasts (page L) = ts \<or>
           (\<exists>x. a_toasts (page L) = ts @ [x] \<and>
                (w = ''SUCCESS'' \<and> a_toastShown_success (page L) \<or>
                 (w = ''FAILED'' \<or> w = ''ANALYSIS_FAILED'') \<and> a_toastShown_error (page L)))
        \<Longrightarrow> a_toasts (page (foldl (analyze_step w) L steps)) = ts \<or>
            (\<exists>x. a_toasts (page (foldl (analyze_step w) L steps)) = ts @ [x])" for ts
  proof (induction steps arbitrary: L)
    case Nil
    then show ?case by auto
  next
    case (Cons s steps)
    show ?case
      using Cons.IH [OF analyze_step_notifies_once [OF Cons.prems]] by simp
  qed
  from this [of "a_toasts (page L)"]
  have "a_toasts (page (analyze_run w L steps)) = a_toasts (page L) \<or>
        (\<exists>x. a_toasts (page (analyze_run w L steps)) = a_toasts (page L) @ [x])"
    by (simp add: analyze_run_def)
  then show ?thesis
  proof
    assume "a_toasts (page (analyze_run w L steps)) = a_toasts (page L)"
    then have "a_toasts (page (analyze_run w L steps)) = a_toasts (page L) @ [] \<and>
               length ([] :: toast list) \<le> 1"
      by simp
    then show ?thesis by blast
  next
    assume "\<exists>x. a_toasts (page (analyze_run w L steps)) = a_toasts (page L) @ [x]"
    then obtain x where "a_toasts (page (analyze_run w L steps)) = a_toasts (page L) @ [x]" ..
    then have "a_toasts (page (analyze_run w L steps)) = a_toasts (page L) @ [x] \<and> length [x] \<le> 1"
      by simp
    then show ?thesis by blast
  qed
qed

lemma clean_handleStartCleaning_resets_guard:
  "c_status sc = ''READY'' \<or> c_status sc = ''CLEANING_FAILED'' \<Longrightarrow>
   \<not> c_toastShown_success (clean_handleStartCleaning now1 now2 sc) \<and>
   \<not> c_toastShown_error (clean_handleStartCleaning now1 now2 sc) \<and>
   c_status (clean_handleStartCleaning now1 now2 sc) = ''CLEANING''"
  by (auto simp: clean_handleStartCleaning_def)

text \<open>
  C2, as the code has it. On the Analyze and Clean pages the toast effect is guarded by
  \<^verbatim>\<open>toastShownRef\<close>: over every sequence of \<^verbatim>\<open>status_update\<close> events and renders, from any
  state of the page, at most one notification is added, so a terminal status announced
  twice notifies once. On the Clean page \<^verbatim>\<open>handleStartCleaning\<close>, run from READY or
  CLEANING_FAILED, clears both flags of the guard: the cleaning run it starts notifies
  anew.
\<close>

theorem notifies_once_between_guard_resets:
  "(\<exists>extra. a_toasts (page (analyze_run w La steps)) = a_toasts (page La) @ extra \<and>
            length extra \<le> 1) \<and>
   (\<exists>extra. c_toasts (page (clean_run Lc steps)) = c_toasts (page Lc) @ extra \<and>
            length extra \<le> 1) \<and>
   (c_status sc = ''READY'' \<or> c_status sc = ''CLEANING_FAILED'' \<longrightarrow>
      \<not> c_toastShown_success (clean_handleStartCleaning now1 now2 sc) \<and>
      \<not> c_toastShown_error (clean_handleStartCleaning now1 now2 sc) \<and>
      c_status (clean_handleStartCleaning now1 now2 sc) = ''CLEANING'')"
  using analyze_run_notifies_once [of w La steps] clean_run_notifies_once [of Lc steps]
    clean_handleStartCleaning_resets_guard [of sc now1 now2]
  by blast

text \<open>
  The theorem at a Clean page told CLEANING_FAILED twice and then CLEANING_SUCCESS, at an
  Analyze page told SUCCESS twice where the identifier \<^verbatim>\<open>status\<close> yields the empty
  string, and at a retry after a failure.
\<close>

theorem notifies_once_between_guard_resets_witness:
  "c_toasts (page (clean_run (just_fetched (clean_loaded ''CLEANING''))
       [Render, StatusEvent (status_update_of ''CLEANING_FAILED''), Render,
        StatusEvent (status_update_of ''CLEANING_FAILED''), Render,
        StatusEvent (status_update_of ''CLEANING_SUCCESS''), Render]))
     = [ToastError ''Data Cleaning Failed. Check logs.''] \<and>
   a_toasts (page (analyze_run [] (just_fetched (analyze_loaded ''ANALYZING''))
       [Render, StatusEvent (status_update_of ''SUCCESS''), Render,
        StatusEvent (status_update_of ''SUCCESS''), Render]))
     = [] \<and>
   c_toastShown_error (page (clean_run (just_fetched (clean_loaded ''CLEANING''))
       [Render, StatusEvent (status_update_of ''CLEANING_FAILED''), Render])) \<and>
   \<not> c_toastShown_error (clean_handleStartCleaning ''2026-01-01T00:05:00.000Z''
       ''2026-01-01T00:05:00.001Z''
       (page (clean_run (just_fetched (clean_loaded ''CLEANING''))
          [Render, StatusEvent (status_update_of ''CLEANING_FAILED''), Render])))"
  using notifies_once_between_guard_resets
    [of "[]" "just_fetched (analyze_loaded ''ANALYZING'')"
        "[Render, StatusEvent (status_update_of ''SUCCESS''), Render,
          StatusEvent (status_update_of ''SUCCESS''), Render]"
        "just_fetched (clean_loaded ''CLEANING'')"
        "page (clean_run (just_fetched (clean_loaded ''CLEANING''))
          [Render, StatusEvent (status_update_of ''CLEANING_FAILED''), Render])"
        "''2026-01-01T00:05:00.000Z''" "''2026-01-01T00:05:00.001Z''"]
  by (simp add: clean_run_def clean_step_def analyze_run_def analyze_step_def just_fetched_def
      clean_loaded_def analyze_loaded_def clean_initial_def analyze_initial_def
      clean_shouldConnect_def analyze_shouldConnect_def clean_onStatusUpdate_def
      analyze_handleStatusUpdate_def clean_toast_effect_def analyze_toast_effect_def
      clean_handleStartCleaning_def status_update_of_def truthy_str_def Let_def)

text \<open>
  C2 as stated fails on the Clean page: within one page lifetime the server reports
  CLEANING_FAILED, the user retries, the server reports CLEANING_FAILED again, and the
  failure toast is raised both times.
\<close>

theorem cleaning_retry_notifies_again_counterexample:
  "c_toasts (page clean_first_failure)
     = [ToastLoading ''Starting data cleaning...'',
        ToastError ''Data Cleaning Failed. Check logs.''] \<and>
   c_toasts (page clean_second_failure)
     = [ToastLoading ''Starting data cleaning...'',
        ToastError ''Data Cleaning Failed. Check logs.'',
        ToastLoading ''Starting data cleaning...'',
        ToastError ''Data Cleaning Failed. Check logs.'']"
  by (simp add: clean_second_failure_def clean_first_failure_def clean_click_start_def
      clean_run_def clean_step_def just_fetched_def clean_loaded_def clean_initial_def
      clean_shouldConnect_def clean_onStatusUpdate_def clean_toast_effect_def
      clean_handleStartCleaning_def status_update_of_def Let_def)

section \<open>The chart accumulator\<close>

lemma array_shift_drop: "array_shift xs = drop 1 xs"
  by (cases xs) (simp_all add: array_shift_def)

lemma shift_chart_drop: "shift_chart c = drop_chart 1 c"
  by (simp add: shift_chart_def drop_chart_def array_shift_drop)

lemma drop_chart_0: "drop_chart 0 c = c"
  by (simp add: drop_chart_def)

lemma drop_chart_drop_chart: "drop_chart j (drop_chart k c) = drop_chart (j + k) c"
  by (simp add: drop_chart_def)

lemma labels_drop_chart: "labels (drop_chart k c) = drop k (labels c)"
  by (simp add: drop_chart_def)

text \<open>The loop removes exactly the surplus over \<open>maxPoints\<close>, from the front of all six arrays.\<close>

lemma evict_eq:
  "evict md =
     \<lparr>primary = drop_chart (length (labels (primary md)) - maxPoints) (primary md),
      secondary = drop_chart (length (labels (primary md)) - maxPoints) (secondary md)\<rparr>"
proof (induction md rule: evict.induct)
  case (1 md)
  show ?case
  proof (cases "length (labels (primary md)) > maxPoints")
    case True
    have k: "length (labels (primary md)) - 1 - maxPoints + 1
               = length (labels (primary md)) - maxPoints"
      using True by simp
    have "evict md =
            evict \<lparr>primary = shift_chart (primary md), secondary = shift_chart (secondary md)\<rparr>"
      using True by (subst evict.simps) simp
    also have "\<dots> =
        \<lparr>primary = drop_chart (length (labels (primary md)) - maxPoints) (primary md),
         secondary = drop_chart (length (labels (primary md)) - maxPoints) (secondary md)\<rparr>"
      using "1.IH" [OF True] k
      by (simp add: shift_chart_drop drop_chart_drop_chart labels_drop_chart)
    finally show ?thesis .
  next
    case False
    then show ?thesis
      by (subst evict.simps) (simp add: drop_chart_0)
  qed
qed

lemma evict_id: "length (labels (primary md)) \<le> maxPoints \<Longrightarrow> evict md = md"
  by (simp add: evict_eq drop_chart_0)

lemma indexOf_None_iff: "indexOf xs x = None \<longleftrightarrow> x \<notin> set xs"
  by (induction xs) auto

lemma indexOf_Some: "indexOf xs x = Some i \<Longrightarrow> i < length xs \<and> xs ! i = x"
  by (induction xs arbitrary: i) (auto split: if_splits)

lemma chart_wf_initial: "chart_wf initialMetricData"
  by (simp add: chart_wf_def initialMetricData_def initialChartData_def)

lemma js_assign_in_range: "i < length xs \<Longrightarrow> js_assign xs i v = xs[i := v]"
  by (simp add: js_assign_def)

lemma updater_found:
  assumes wf: "chart_wf md" and ix: "indexOf (labels (primary md)) x = Some i"
  shows "setMetricData_updater taskType x m md =
     \<lparr>primary = (primary md)
        \<lparr>train_data := (train_data (primary md))[i := trainP taskType m],
         val_data := (val_data (primary md))[i := valP taskType m]\<rparr>,
      secondary = (secondary md)
        \<lparr>train_data := (train_data (secondary md))[i := trainS taskType m],
         val_data := (val_data (secondary md))[i := valS taskType m]\<rparr>\<rparr>"
proof -
  have i: "i < length (labels (primary md))"
    using indexOf_Some [OF ix] by simp
  have len: "length (labels (primary md)) \<le> maxPoints"
    using wf by (simp add: chart_wf_def)
  have inr: "i < length (train_data (primary md))" "i < length (val_data (primary md))"
    "i < length (train_data (secondary md))" "i < length (val_data (secondary md))"
    using wf i by (simp_all add: chart_wf_def)
  show ?thesis
    using ix len inr
    by (simp add: setMetricData_updater_def Let_def evict_id js_assign_in_range)
qed

lemma updater_new:
  assumes nx: "x \<notin> set (labels (primary md))"
  shows "setMetricData_updater taskType x m md =
     \<lparr>primary = drop_chart (Suc (length (labels (primary md))) - maxPoints)
        \<lparr>labels = labels (primary md) @ [x],
         train_data = train_data (primary md) @ [trainP taskType m],
         val_data = val_data (primary md) @ [valP taskType m]\<rparr>,
      secondary = drop_chart (Suc (length (labels (primary md))) - maxPoints)
        \<lparr>labels = labels (secondary md) @ [x],
         train_data = train_data (secondary md) @ [trainS taskType m],
         val_data = val_data (secondary md) @ [valS taskType m]\<rparr>\<rparr>"
proof -
  have "indexOf (labels (primary md)) x = None"
    using nx by (simp add: indexOf_None_iff)
  then show ?thesis
    by (simp add: setMetricData_updater_def Let_def evict_eq drop_chart_def)
qed

lemma chart_wf_updater:
  assumes wf: "chart_wf md"
  shows "chart_wf (setMetricData_updater taskType x m md)"
proof (cases "indexOf (labels (primary md)) x")
  case None
  then have nx: "x \<notin> set (labels (primary md))"
    by (simp add: indexOf_None_iff)
  have d: "distinct (labels (primary md) @ [x])"
    using wf nx by (simp add: chart_wf_def)
  have "distinct (drop (Suc (length (labels (primary md))) - maxPoints) (labels (primary md) @ [x]))"
    using d by (rule distinct_drop)
  then show ?thesis
    using wf by (simp add: updater_new [OF nx] chart_wf_def drop_chart_def)
next
  case (Some i)
  show ?thesis
    using wf by (simp add: updater_found [OF wf Some] chart_wf_def)
qed

lemma chart_wf_foldl:
  "chart_wf md \<Longrightarrow>
   chart_wf (foldl (\<lambda>acc ev. setMetricData_updater taskType (fst ev) (snd ev) acc) md evs)"
  by (induction evs arbitrary: md) (simp_all add: chart_wf_updater)

lemma chart_wf_fold_metrics: "chart_wf md \<Longrightarrow> chart_wf (fold_metrics taskType md evs)"
  unfolding fold_metrics_def by (rule chart_wf_foldl)

lemma label_present_after_updater:
  assumes wf: "chart_wf md"
  shows "x \<in> set (labels (primary (setMetricData_updater taskType x m md)))"
proof (cases "indexOf (labels (primary md)) x")
  case None
  then have nx: "x \<notin> set (labels (primary md))"
    by (simp add: indexOf_None_iff)
  have len: "length (labels (primary md)) \<le> maxPoints"
    using wf by (simp add: chart_wf_def)
  have "Suc (length (labels (primary md))) - maxPoints \<le> length (labels (primary md))"
    using len by (simp add: maxPoints_def)
  then show ?thesis
    by (simp add: updater_new [OF nx] drop_chart_def)
next
  case (Some i)
  have "x \<in> set (labels (primary md))"
    using indexOf_Some [OF Some] by (metis nth_mem)
  then show ?thesis
    by (simp add: updater_found [OF wf Some])
qed

lemma drop_snoc_cap:
  assumes "length xs = n"
  shows "drop (Suc (min n M) - M) (drop (n - M) xs @ [x]) = drop (Suc n - M) (xs @ [x])"
proof (cases "n < M")
  case True
  then show ?thesis by (simp add: min_def)
next
  case False
  then have "M \<le> n" by simp
  then show ?thesis
    using assms by (cases "M = 0") (simp_all add: min_def Suc_diff_le)
qed

lemma fold_metrics_snoc:
  "fold_metrics taskType md (evs @ [ev]) =
     setMetricData_updater taskType (fst ev) (snd ev) (fold_metrics taskType md evs)"
  by (simp add: fold_metrics_def)

text \<open>
  With pairwise distinct labels every event appends, so the state is the uncapped charts
  with the surplus over \<open>maxPoints\<close> dropped from the front.
\<close>

lemma fold_metrics_distinct:
  "distinct (map fst evs) \<Longrightarrow>
   fold_metrics taskType initialMetricData evs =
     \<lparr>primary = drop_chart (length evs - maxPoints) (uncapped_primary taskType evs),
      secondary = drop_chart (length evs - maxPoints) (uncapped_secondary taskType evs)\<rparr>"
proof (induction evs rule: rev_induct)
  case Nil
  show ?case
    by (simp add: fold_metrics_def initialMetricData_def initialChartData_def drop_chart_def
        uncapped_primary_def uncapped_secondary_def)
next
  case (snoc ev evs)
  let ?k = "length evs - maxPoints"
  let ?s = "fold_metrics taskType initialMetricData evs"
  have d: "distinct (map fst evs)" and new: "fst ev \<notin> set (map fst evs)"
    using snoc.prems by simp_all
  have s: "?s = \<lparr>primary = drop_chart ?k (uncapped_primary taskType evs),
      secondary = drop_chart ?k (uncapped_secondary taskType evs)\<rparr>"
    using snoc.IH [OF d] .
  have lab: "labels (primary ?s) = drop ?k (map fst evs)"
    by (simp add: s drop_chart_def uncapped_primary_def)
  have nx: "fst ev \<notin> set (labels (primary ?s))"
    using new in_set_dropD [of "fst ev" ?k "map fst evs"] by (auto simp: lab)
  have len: "length (labels (primary ?s)) = min (length evs) maxPoints"
    by (simp add: lab min_def)
  have cap: "\<And>(xs :: 'b list) x. length xs = length evs \<Longrightarrow>
      drop (Suc (min (length evs) maxPoints) - maxPoints) (drop ?k xs @ [x])
        = drop (Suc (length evs) - maxPoints) (xs @ [x])"
    by (rule drop_snoc_cap)
  show ?case
    unfolding fold_metrics_snoc updater_new [OF nx] len
    by (simp add: s drop_chart_def uncapped_primary_def uncapped_secondary_def cap
        del: drop_append)
qed

text \<open>
  C3. Take any chart state the accumulator can reach (the initial charts with any list of
  metric events folded in), then two metric events with the same resolved step label
  \<open>x\<close>. After the first the label stands at some index \<open>i\<close> of the labels, and all four
  data arrays are as long as the labels, so \<open>i\<close> is a cell of each. The second event
  writes its own train and validation values into cell \<open>i\<close> of both charts, changes no
  other cell, and leaves the labels, and with them the length of every series, as they
  were.
\<close>

theorem chart_upsert_in_place:
  fixes evs :: "(int \<times> 'v metric) list"
  shows "let s0 = fold_metrics taskType initialMetricData evs;
         s1 = setMetricData_updater taskType x m1 s0;
         s2 = setMetricData_updater taskType x m2 s1
     in (\<exists>i. indexOf (labels (primary s1)) x = Some i \<and>
             i < length (labels (primary s1)) \<and>
             labels (primary s1) ! i = x \<and>
             i < length (train_data (primary s1)) \<and>
             i < length (val_data (primary s1)) \<and>
             i < length (train_data (secondary s1)) \<and>
             i < length (val_data (secondary s1)) \<and>
             train_data (primary s2) ! i = or_null (m_values m2 (primaryTrainKey taskType)) \<and>
             val_data (primary s2) ! i = or_null (m_values m2 (primaryValKey taskType)) \<and>
             train_data (secondary s2) ! i = or_null (m_values m2 (secondaryTrainKey taskType)) \<and>
             val_data (secondary s2) ! i = or_null (m_values m2 (secondaryValKey taskType)) \<and>
             train_data (primary s2) = (train_data (primary s1))[i := trainP taskType m2] \<and>
             val_data (primary s2) = (val_data (primary s1))[i := valP taskType m2] \<and>
             train_data (secondary s2) = (train_data (secondary s1))[i := trainS taskType m2] \<and>
             val_data (secondary s2) = (val_data (secondary s1))[i := valS taskType m2]) \<and>
        labels (primary s2) = labels (primary s1) \<and>
        labels (secondary s2) = labels (secondary s1) \<and>
        length (train_data (primary s1)) = length (labels (primary s1)) \<and>
        length (val_data (primary s1)) = length (labels (primary s1)) \<and>
        length (train_data (secondary s1)) = length (labels (secondary s1)) \<and>
        length (val_data (secondary s1)) = length (labels (secondary s1)) \<and>
        length (train_data (primary s2)) = length (train_data (primary s1)) \<and>
        length (val_data (primary s2)) = length (val_data (primary s1)) \<and>
        length (train_data (secondary s2)) = length (train_data (secondary s1)) \<and>
        length (val_data (secondary s2)) = length (val_data (secondary s1))"
proof -
  define s0 where "s0 = fold_metrics taskType initialMetricData evs"
  define s1 where "s1 = setMetricData_updater taskType x m1 s0"
  have wf0: "chart_wf s0"
    unfolding s0_def by (rule chart_wf_fold_metrics [OF chart_wf_initial])
  have wf1: "chart_wf s1"
    unfolding s1_def by (rule chart_wf_updater [OF wf0])
  have "x \<in> set (labels (primary s1))"
    unfolding s1_def by (rule label_present_after_updater [OF wf0])
  then obtain i where i: "indexOf (labels (primary s1)) x = Some i"
    by (cases "indexOf (labels (primary s1)) x") (simp_all add: indexOf_None_iff)
  have ir: "i < length (labels (primary s1))" and ix: "labels (primary s1) ! i = x"
    using indexOf_Some [OF i] by simp_all
  have len: "length (train_data (primary s1)) = length (labels (primary s1))"
    "length (val_data (primary s1)) = length (labels (primary s1))"
    "length (train_data (secondary s1)) = length (labels (primary s1))"
    "length (val_data (secondary s1)) = length (labels (primary s1))"
    "labels (secondary s1) = labels (primary s1)"
    using wf1 by (simp_all add: chart_wf_def)
  show ?thesis
    unfolding Let_def s0_def [symmetric] s1_def [symmetric]
    using ir ix len
    by (simp add: updater_found [OF wf1 i] i trainP_def valP_def trainS_def valS_def)
qed

text \<open>
  The theorem at work: epoch 7 is reported with accuracy 1 and then again with accuracy 2;
  the charts hold one point for it, with the second value.
\<close>

lemma chart_upsert_example:
  "labels (primary (fold_metrics ''classification'' initialMetricData
       [(7, sample_metric 1), (7, sample_metric 2)])) = [7] \<and>
   train_data (primary (fold_metrics ''classification'' initialMetricData
       [(7, sample_metric 1), (7, sample_metric 2)])) = [Val 2] \<and>
   val_data (primary (fold_metrics ''classification'' initialMetricData
       [(7, sample_metric 1), (7, sample_metric 2)])) = [Null]"
  by (simp add: fold_metrics_def setMetricData_updater_def initialMetricData_def
      initialChartData_def evict_id maxPoints_def js_assign_def trainP_def valP_def trainS_def
      valS_def or_null_def primaryTrainKey_def primaryValKey_def secondaryTrainKey_def
      secondaryValKey_def sample_metric_def Let_def)

text \<open>
  C4. Starting from the empty charts, 200 metric events with pairwise distinct resolved
  step labels leave, in the primary and in the secondary chart, exactly the labels and
  values of the last 150 events, in arrival order: the 50 oldest points are gone.
\<close>

theorem chart_eviction_bound:
  fixes evs :: "(int \<times> 'v metric) list"
  assumes "length evs = 200" and "distinct (map fst evs)"
  shows "primary (fold_metrics taskType initialMetricData evs) =
           \<lparr>labels = map fst (drop 50 evs),
            train_data = map (\<lambda>ev. trainP taskType (snd ev)) (drop 50 evs),
            val_data = map (\<lambda>ev. valP taskType (snd ev)) (drop 50 evs)\<rparr> \<and>
         secondary (fold_metrics taskType initialMetricData evs) =
           \<lparr>labels = map fst (drop 50 evs),
            train_data = map (\<lambda>ev. trainS taskType (snd ev)) (drop 50 evs),
            val_data = map (\<lambda>ev. valS taskType (snd ev)) (drop 50 evs)\<rparr> \<and>
         length (drop 50 evs) = 150"
  using assms
  by (simp add: fold_metrics_distinct drop_chart_def uncapped_primary_def
      uncapped_secondary_def maxPoints_def drop_map)

text \<open>The theorem at the events of epochs 0 to 199: the labels kept are 50 to 199.\<close>

theorem chart_eviction_bound_witness:
  "length sample_events = 200 \<and> distinct (map fst sample_events) \<and>
   labels (primary (fold_metrics ''classification'' initialMetricData sample_events))
     = map int [50..<200] \<and>
   length (labels (secondary (fold_metrics ''classification'' initialMetricData sample_events)))
     = 150"
proof -
  have l: "length sample_events = 200"
    by (simp add: sample_events_def)
  have d: "distinct (map fst sample_events)"
    by (simp add: sample_events_def comp_def distinct_map inj_on_def)
  have dr: "map fst (drop 50 sample_events) = map int [50..<200]"
    by (simp add: sample_events_def drop_map comp_def)
  show ?thesis
    using chart_eviction_bound [OF l d, of "''classification''"] l d dr
    by simp
qed



section \<open>The socket wrappers\<close>

text \<open>
  C5, as the code has it. Each of the three wrappers takes the token from \<^verbatim>\<open>localStorage\<close>
  when \<^verbatim>\<open>joinTrainingRoom\<close> is called. With no token stored (or an empty one) none of them
  emits \<^verbatim>\<open>join_room\<close>, and the browser, its socket included, is left as it was: the two
  wrappers that return a promise reject it, the third returns \<^verbatim>\<open>undefined\<close>. With a token
  \<open>t\<close> stored, each emits \<^verbatim>\<open>join_room\<close> carrying \<open>t\<close> and the run id. The copy of the token
  the auth store keeps in memory has no influence on any of this.
\<close>

theorem join_reads_stored_token:
  "(\<not> truthy_str (localStorage b ''access_token'') \<longrightarrow>
      joinTrainingRoom_enhanced r b = (Rejected ''No auth token found, cannot join room.'', b) \<and>
      joinTrainingRoom r b = (Rejected ''No auth token found, cannot join room.'', b) \<and>
      is_rejected (Returns_promise (fst (joinTrainingRoom_enhanced r b))) \<and>
      is_rejected (Returns_promise (fst (joinTrainingRoom r b))) \<and>
      joinTrainingRoom_plain r b = (Returns_undefined, b)) \<and>
   (localStorage b' ''access_token'' = Some t \<and> t \<noteq> [] \<longrightarrow>
      fst (joinTrainingRoom_enhanced r b') = Pending \<and>
      emitted (sock (snd (joinTrainingRoom_enhanced r b'))) = emitted (sock b') @ [Join_room t r] \<and>
      fst (joinTrainingRoom r b') = Pending \<and>
      emitted (sock (snd (joinTrainingRoom r b'))) = emitted (sock b') @ [Join_room t r] \<and>
      emitted (sock (snd (joinTrainingRoom_plain r b'))) = emitted (sock b') @ [Join_room t r]) \<and>
   fst (joinTrainingRoom_enhanced r (b\<lparr>auth_accessToken := c\<rparr>)) = fst (joinTrainingRoom_enhanced r b) \<and>
   emitted (sock (snd (joinTrainingRoom_enhanced r (b\<lparr>auth_accessToken := c\<rparr>))))
     = emitted (sock (snd (joinTrainingRoom_enhanced r b))) \<and>
   fst (joinTrainingRoom r (b\<lparr>auth_accessToken := c\<rparr>)) = fst (joinTrainingRoom r b) \<and>
   emitted (sock (snd (joinTrainingRoom r (b\<lparr>auth_accessToken := c\<rparr>))))
     = emitted (sock (snd (joinTrainingRoom r b))) \<and>
   emitted (sock (snd (joinTrainingRoom_plain r (b\<lparr>auth_accessToken := c\<rparr>))))
     = emitted (sock (snd (joinTrainingRoom_plain r b)))"
  by (auto simp: joinTrainingRoom_enhanced_def joinTrainingRoom_def joinTrainingRoom_plain_def
      is_rejected_def truthy_str_def split: option.splits)

text \<open>
  The theorem at a browser without a token and at one whose stored token is \<open>fresh\<close> while
  the auth store still holds \<open>stale\<close>.
\<close>

theorem join_reads_stored_token_witness:
  "joinTrainingRoom ''7'' (sample_browser None True)
     = (Rejected ''No auth token found, cannot join room.'', sample_browser None True) \<and>
   joinTrainingRoom_enhanced ''7'' (sample_browser None True)
     = (Rejected ''No auth token found, cannot join room.'', sample_browser None True) \<and>
   joinTrainingRoom_plain ''7'' (sample_browser None True)
     = (Returns_undefined, sample_browser None True) \<and>
   emitted (sock (snd (joinTrainingRoom ''7'' (sample_browser (Some ''fresh'') True))))
     = [Join_room ''fresh'' ''7''] \<and>
   emitted (sock (snd (joinTrainingRoom_enhanced ''7'' (sample_browser (Some ''fresh'') True))))
     = [Join_room ''fresh'' ''7''] \<and>
   emitted (sock (snd (joinTrainingRoom_plain ''7'' (sample_browser (Some ''fresh'') True))))
     = [Join_room ''fresh'' ''7'']"
  using join_reads_stored_token
    [of "sample_browser None True" "''7''" "sample_browser (Some ''fresh'') True" "''fresh''" None]
  by (simp add: sample_browser_def truthy_str_def)

text \<open>
  C5 as stated fails for the third wrapper: called without a stored token it returns
  \<^verbatim>\<open>undefined\<close>, not a promise that rejects, where the wrapper \<^verbatim>\<open>socket\<close> does return a
  rejected promise. It emits nothing either way.
\<close>

theorem plain_join_returns_no_promise_counterexample:
  "localStorage (sample_browser None True) ''access_token'' = None \<and>
   fst (joinTrainingRoom_plain ''7'' (sample_browser None True)) = Returns_undefined \<and>
   \<not> is_rejected (fst (joinTrainingRoom_plain ''7'' (sample_browser None True))) \<and>
   is_rejected (Returns_promise (fst (joinTrainingRoom ''7'' (sample_browser None True)))) \<and>
   emitted (sock (snd (joinTrainingRoom_plain ''7'' (sample_browser None True)))) = []"
  by (simp add: joinTrainingRoom_plain_def joinTrainingRoom_def is_rejected_def
      sample_browser_def)

text \<open>
  C6 at the wrapper \<^verbatim>\<open>socket_enhanced\<close>: its \<^verbatim>\<open>leaveTrainingRoom\<close> calls \<^verbatim>\<open>socket.emit\<close>
  without looking at \<^verbatim>\<open>socket.connected\<close>, so with the transport down the \<^verbatim>\<open>leave_room\<close>
  message is handed to the socket all the same.
\<close>

theorem leave_enhanced_emits_when_disconnected:
  "\<not> connected (sock (sample_browser (Some ''fresh'') False)) \<and>
   emitted (sock (leaveTrainingRoom_enhanced ''7'' (sample_browser (Some ''fresh'') False)))
     = [Leave_room ''7'']"
  by (simp add: leaveTrainingRoom_enhanced_def sample_browser_def)

text \<open>The wrapper \<^verbatim>\<open>socket\<close> emits only while connected.\<close>

lemma leaveTrainingRoom_guarded:
  "emitted (sock (leaveTrainingRoom r b)) =
     (if connected (sock b) then emitted (sock b) @ [Leave_room r] else emitted (sock b))"
  by (simp add: leaveTrainingRoom_def)

section \<open>The API client\<close>

text \<open>
  C10. A response with status 401 is rejected, and by then the interceptor has removed
  \<^verbatim>\<open>access_token\<close> and \<^verbatim>\<open>user\<close> from \<^verbatim>\<open>localStorage\<close> and nothing else; any other response,
  and a request without a response, leave \<^verbatim>\<open>localStorage\<close> as it was.
\<close>

theorem unauthorized_clears_credentials:
  "(\<exists>e. fst (api_settle (Some 401) msg b) = Failed e) \<and>
   localStorage (snd (api_settle (Some 401) msg b))
     = (localStorage b)(''access_token'' := None, ''user'' := None) \<and>
   (response \<noteq> Some 401 \<longrightarrow> localStorage (snd (api_settle response msg b)) = localStorage b)"
  by (auto simp: api_settle_def response_rejected_def response_fulfilled_def Let_def
      split: option.splits)

text \<open>The theorem at a 401 and at a 404 response, for a browser holding a token.\<close>

theorem unauthorized_clears_credentials_witness:
  "localStorage (snd (api_settle (Some 401) ''Unauthorized'' (sample_browser (Some ''fresh'') True)))
      ''access_token'' = None \<and>
   localStorage (snd (api_settle (Some 401) ''Unauthorized'' (sample_browser (Some ''fresh'') True)))
      ''user'' = None \<and>
   localStorage (snd (api_settle (Some 404) ''Not Found'' (sample_browser (Some ''fresh'') True)))
      ''access_token'' = Some ''fresh''"
  using unauthorized_clears_credentials
    [of "''Unauthorized''" "sample_browser (Some ''fresh'') True" "Some 401"]
    unauthorized_clears_credentials
    [of "''Not Found''" "sample_browser (Some ''fresh'') True" "Some 404"]
  by (simp add: sample_browser_def)

section \<open>The progress ratio\<close>

lemma or_num_nonzero: "d \<noteq> 0 \<Longrightarrow> or_num a d \<noteq> 0"
  by (simp add: or_num_def split: option.splits)

lemma or_num_field_value:
  "or_num a d = (if field_value a \<noteq> 0 then field_value a else d)"
  by (simp add: or_num_def field_value_def split: option.splits)

text \<open>
  C8, as the code has it. The percentage is a quotient times 100 whose divisor is never
  zero. The dividend is the epoch if that is set and not zero, else the current step (0
  when absent). The divisor is the total of epochs if set and not zero, else the total of
  steps if set and not zero, else 1: a total that is zero or absent is treated as 1, a
  negative one is used as it is. When the epoch counters are absent or zero this is the
  current step over the total steps, and for a total that is not negative it is the ratio
  as stated.
\<close>

theorem progress_ratio_guard:
  "progress_denominator p \<noteq> 0 \<and>
   progress_percent p = of_int (progress_numerator p) / of_int (progress_denominator p) * 100 \<and>
   progress_numerator p =
     (if field_value (p_epoch p) \<noteq> 0 then field_value (p_epoch p)
      else field_value (p_current_step p)) \<and>
   progress_denominator p =
     (if field_value (p_total_epochs p) \<noteq> 0 then field_value (p_total_epochs p)
      else if field_value (p_total_steps p) \<noteq> 0 then field_value (p_total_steps p)
      else 1) \<and>
   (field_value (p_epoch p) = 0 \<and> field_value (p_total_epochs p) = 0 \<longrightarrow>
      progress_percent p =
        of_int (field_value (p_current_step p)) /
        of_int (if field_value (p_total_steps p) = 0 then 1 else field_value (p_total_steps p))
        * 100 \<and>
      (0 \<le> field_value (p_total_steps p) \<longrightarrow>
         progress_percent p =
           stated_progress_percent (field_value (p_current_step p))
             (field_value (p_total_steps p))))"
proof -
  have n: "progress_numerator p =
     (if field_value (p_epoch p) \<noteq> 0 then field_value (p_epoch p)
      else field_value (p_current_step p))"
    by (simp add: progress_numerator_def or_num_field_value)
  have d: "progress_denominator p =
     (if field_value (p_total_epochs p) \<noteq> 0 then field_value (p_total_epochs p)
      else if field_value (p_total_steps p) \<noteq> 0 then field_value (p_total_steps p)
      else 1)"
    by (simp add: progress_denominator_def or_num_field_value)
  have z: "progress_denominator p \<noteq> 0"
    by (simp add: d)
  have q: "progress_percent p
             = of_int (progress_numerator p) / of_int (progress_denominator p) * 100"
    by (simp add: progress_percent_def)
  have e: "field_value (p_epoch p) = 0 \<and> field_value (p_total_epochs p) = 0 \<longrightarrow>
      progress_percent p =
        of_int (field_value (p_current_step p)) /
        of_int (if field_value (p_total_steps p) = 0 then 1 else field_value (p_total_steps p))
        * 100 \<and>
      (0 \<le> field_value (p_total_steps p) \<longrightarrow>
         progress_percent p =
           stated_progress_percent (field_value (p_current_step p))
             (field_value (p_total_steps p)))"
    by (simp add: q n d stated_progress_percent_def)
  show ?thesis
    using z q n d e by (intro conjI) assumption+
qed

text \<open>
  The theorem at step 1 with totals -2, 0 and 4, at the initial record, which has no total
  of steps, and at epoch 3 of 10.
\<close>

theorem progress_ratio_guard_witness:
  "progress_denominator sample_progress \<noteq> 0 \<and> progress_percent sample_progress = - 50 \<and>
   progress_percent (sample_progress\<lparr>p_total_steps := Some 0\<rparr>) = 100 \<and>
   progress_percent (sample_progress\<lparr>p_total_steps := None\<rparr>) = 100 \<and>
   progress_percent (sample_progress\<lparr>p_total_steps := Some 4\<rparr>) = stated_progress_percent 1 4 \<and>
   progress_denominator initial_progress = 1 \<and> progress_percent initial_progress = 0 \<and>
   progress_percent sample_progress_epochs = 30"
  using progress_ratio_guard [of sample_progress]
    progress_ratio_guard [of "sample_progress\<lparr>p_total_steps := Some 0\<rparr>"]
    progress_ratio_guard [of "sample_progress\<lparr>p_total_steps := None\<rparr>"]
    progress_ratio_guard [of "sample_progress\<lparr>p_total_steps := Some 4\<rparr>"]
    progress_ratio_guard [of initial_progress]
    progress_ratio_guard [of sample_progress_epochs]
  by (simp add: sample_progress_def sample_progress_epochs_def initial_progress_def
      field_value_def)

text \<open>
  C8 as stated fails twice over. A negative total is not treated as 1: step 1 of -2 is
  rendered as -50 percent where the statement gives 100. And the epoch counters come
  before the step counters: at epoch 3 of 10 with step 5 of 10 the bar shows 30 percent,
  not the 50 that the current step over the total steps would give.
\<close>

theorem progress_negative_total_counterexample:
  "progress_percent sample_progress = - 50 \<and>
   stated_progress_percent 1 (- 2) = 100 \<and>
   progress_percent sample_progress \<noteq> stated_progress_percent 1 (- 2) \<and>
   p_current_step sample_progress_epochs = Some 5 \<and>
   p_total_steps sample_progress_epochs = Some 10 \<and>
   progress_percent sample_progress_epochs = 30 \<and>
   stated_progress_percent 5 10 = 50"
  by (simp add: progress_percent_def progress_numerator_def progress_denominator_def
      or_num_def sample_progress_def sample_progress_epochs_def stated_progress_percent_def)

section \<open>Timestamps of consumed events\<close>

lemma stamp_log_timestamp:
  "l_timestamp (stamp_log now lg) =
     (if truthy_str (l_timestamp lg) then l_timestamp lg else Some now)"
  by (simp add: stamp_log_def)

lemma stamp_metric_timestamp:
  "m_timestamp (stamp_metric now m) =
     (if truthy_str (m_timestamp m) then m_timestamp m else Some now)"
  by (simp add: stamp_metric_def)

lemma stamp_progress_timestamp:
  "p_timestamp (stamp_progress now p) =
     (if truthy_str (p_timestamp p) then p_timestamp p else Some now)"
  by (simp add: stamp_progress_def)

lemma truthy_stamped: "now \<noteq> [] \<Longrightarrow> truthy_str (if truthy_str x then x else Some now)"
  by (simp add: truthy_str_def)

lemma train_onLog_mounted:
  "t_isMounted st \<Longrightarrow>
   train_onLog now lg st = (stamp_log now lg, st\<lparr>t_logs := t_logs st @ [stamp_log now lg]\<rparr>)"
  by (simp add: train_onLog_def Let_def)

lemma train_onProgress_mounted:
  "t_isMounted st \<Longrightarrow>
   train_onProgress now p st =
     (stamp_progress now p, st\<lparr>t_progress := merge_progress (t_progress st) (stamp_progress now p)\<rparr>)"
  by (simp add: train_onProgress_def Let_def)

lemma train_onMetric_mounted:
  "t_isMounted st \<Longrightarrow> t_taskType st = Some tt \<Longrightarrow> tt \<noteq> [] \<Longrightarrow>
   fst (train_onMetric now cp m st) = stamp_metric now m \<and>
   t_metrics (snd (train_onMetric now cp m st)) = Some (stamp_metric now m) \<and>
   t_logs (snd (train_onMetric now cp m st)) = t_logs st \<and>
   t_metricData (snd (train_onMetric now cp m st)) =
     setMetricData_updater tt (resolve_stepLabel (stamp_metric now m) cp) (stamp_metric now m)
       (t_metricData st)"
  by (simp add: train_onMetric_def Let_def)

lemma merged_timestamp:
  "truthy_str (p_timestamp q) \<Longrightarrow> p_timestamp (merge_progress p q) = p_timestamp q"
  by (auto simp: merge_progress_def override_def truthy_str_def split: option.splits)

text \<open>
  C7, as the code has it. On a mounted page, a log, metric or progress event leaves its
  handler with a timestamp: its own if it had one, the receipt time otherwise; the copy
  kept in the page state (the entry appended to the logs, the latest metric, the merged
  progress record) carries it. A \<^verbatim>\<open>status_update\<close> event leaves its handler unchanged:
  it is not stamped, and only its status is kept.
\<close>

theorem consumed_events_are_stamped:
  assumes now: "now \<noteq> []"
    and mounted: "t_isMounted st" "a_isMounted sa" "c_isMounted sc"
    and task: "t_taskType st = Some tt" "tt \<noteq> []"
  shows "event_timestamp (fst (train_receive now cp (Log lg) st))
           = (if truthy_str (l_timestamp lg) then l_timestamp lg else Some now) \<and>
         truthy_str (event_timestamp (fst (train_receive now cp (Log lg) st))) \<and>
         t_logs (snd (train_receive now cp (Log lg) st)) = t_logs st @ [stamp_log now lg] \<and>
         event_timestamp (fst (train_receive now cp (Metric m) st))
           = (if truthy_str (m_timestamp m) then m_timestamp m else Some now) \<and>
         truthy_str (event_timestamp (fst (train_receive now cp (Metric m) st))) \<and>
         t_metrics (snd (train_receive now cp (Metric m) st)) = Some (stamp_metric now m) \<and>
         event_timestamp (fst (train_receive now cp (Progress p) st))
           = (if truthy_str (p_timestamp p) then p_timestamp p else Some now) \<and>
         truthy_str (event_timestamp (fst (train_receive now cp (Progress p) st))) \<and>
         p_timestamp (t_progress (snd (train_receive now cp (Progress p) st)))
           = (if truthy_str (p_timestamp p) then p_timestamp p else Some now) \<and>
         fst (analyze_handleLog now lg sa) = stamp_log now lg \<and>
         a_logs (snd (analyze_handleLog now lg sa)) = a_logs sa @ [stamp_log now lg] \<and>
         fst (clean_onLog now lg sc) = stamp_log now lg \<and>
         c_logs (snd (clean_onLog now lg sc)) = c_logs sc @ [stamp_log now lg] \<and>
         truthy_str (l_timestamp (stamp_log now lg)) \<and>
         fst (train_receive now cp (StatusUpdate u) st) = StatusUpdate u"
proof -
  have tl: "truthy_str (if truthy_str (l_timestamp lg) then l_timestamp lg else Some now)"
    using now by (rule truthy_stamped)
  have tm: "truthy_str (if truthy_str (m_timestamp m) then m_timestamp m else Some now)"
    using now by (rule truthy_stamped)
  have tp: "truthy_str (if truthy_str (p_timestamp p) then p_timestamp p else Some now)"
    using now by (rule truthy_stamped)
  have l1: "event_timestamp (fst (train_receive now cp (Log lg) st))
           = (if truthy_str (l_timestamp lg) then l_timestamp lg else Some now)"
    by (simp add: train_receive_def event_timestamp_def train_onLog_mounted [OF mounted(1)]
        stamp_log_timestamp)
  have l2: "t_logs (snd (train_receive now cp (Log lg) st)) = t_logs st @ [stamp_log now lg]"
    by (simp add: train_receive_def train_onLog_mounted [OF mounted(1)])
  note om = train_onMetric_mounted [OF mounted(1) task, of now cp m]
  have m1: "event_timestamp (fst (train_receive now cp (Metric m) st))
           = (if truthy_str (m_timestamp m) then m_timestamp m else Some now)"
    using om by (simp add: train_receive_def event_timestamp_def stamp_metric_timestamp
        split_beta)
  have m2: "t_metrics (snd (train_receive now cp (Metric m) st)) = Some (stamp_metric now m)"
    using om by (simp add: train_receive_def split_beta)
  have p1: "event_timestamp (fst (train_receive now cp (Progress p) st))
           = (if truthy_str (p_timestamp p) then p_timestamp p else Some now)"
    by (simp add: train_receive_def event_timestamp_def train_onProgress_mounted [OF mounted(1)]
        stamp_progress_timestamp)
  have "truthy_str (p_timestamp (stamp_progress now p))"
    using tp by (simp add: stamp_progress_timestamp)
  then have p2: "p_timestamp (t_progress (snd (train_receive now cp (Progress p) st)))
           = (if truthy_str (p_timestamp p) then p_timestamp p else Some now)"
    by (simp add: train_receive_def train_onProgress_mounted [OF mounted(1)] merged_timestamp
        stamp_progress_timestamp)
  have a: "fst (analyze_handleLog now lg sa) = stamp_log now lg"
    "a_logs (snd (analyze_handleLog now lg sa)) = a_logs sa @ [stamp_log now lg]"
    using mounted(2) by (simp_all add: analyze_handleLog_def Let_def)
  have c: "fst (clean_onLog now lg sc) = stamp_log now lg"
    "c_logs (snd (clean_onLog now lg sc)) = c_logs sc @ [stamp_log now lg]"
    using mounted(3) by (simp_all add: clean_onLog_def Let_def)
  have s: "truthy_str (l_timestamp (stamp_log now lg))"
    using tl by (simp add: stamp_log_timestamp)
  have u: "fst (train_receive now cp (StatusUpdate u) st) = StatusUpdate u"
    by (simp add: train_receive_def)
  show ?thesis
    using l1 l2 m1 m2 p1 p2 a c s u tl tm tp by simp
qed

text \<open>The theorem at events without a timestamp, on loaded pages.\<close>

theorem consumed_events_are_stamped_witness:
  "event_timestamp (fst (train_receive ''2026-01-01T00:00:00.000Z'' initial_progress
       (Log sample_log) (train_loaded ''TRAINING''))) = Some ''2026-01-01T00:00:00.000Z'' \<and>
   event_timestamp (fst (train_receive ''2026-01-01T00:00:00.000Z'' initial_progress
       (Metric (sample_metric 3)) (train_loaded ''TRAINING''))) = Some ''2026-01-01T00:00:00.000Z'' \<and>
   p_timestamp (t_progress (snd (train_receive ''2026-01-01T00:00:00.000Z'' initial_progress
       (Progress sample_progress) (train_loaded ''TRAINING'')))) = Some ''2026-01-01T00:00:00.000Z'' \<and>
   a_logs (snd (analyze_handleLog ''2026-01-01T00:00:00.000Z'' sample_log (analyze_loaded ''ANALYZING'')))
     = [sample_log\<lparr>l_timestamp := Some ''2026-01-01T00:00:00.000Z''\<rparr>]"
  using consumed_events_are_stamped
    [of "''2026-01-01T00:00:00.000Z''" "train_loaded ''TRAINING''" "analyze_loaded ''ANALYZING''"
        "clean_loaded ''CLEANING''" "''classification''" initial_progress sample_log
        "sample_metric 3" sample_progress "status_update_of ''TRAINING''"]
  by (simp add: train_loaded_def train_initial_def analyze_loaded_def analyze_initial_def
      clean_loaded_def clean_initial_def sample_log_def sample_metric_def sample_progress_def
      stamp_log_def truthy_str_def)

text \<open>
  C7 as stated fails for the status update variant: a \<^verbatim>\<open>status_update\<close> without a timestamp
  still has none after the Training page has handled it.
\<close>

theorem status_update_not_stamped_counterexample:
  "event_timestamp (StatusUpdate (status_update_of ''TRAINING'') :: int run_event) = None \<and>
   event_timestamp (fst (train_receive ''2026-01-01T00:00:00.000Z'' initial_progress
       (StatusUpdate (status_update_of ''TRAINING'')) (train_loaded ''STARTING''))) = None \<and>
   \<not> truthy_str (event_timestamp (fst (train_receive ''2026-01-01T00:00:00.000Z'' initial_progress
       (StatusUpdate (status_update_of ''TRAINING'')) (train_loaded ''STARTING''))))"
  by (simp add: train_receive_def event_timestamp_def status_update_of_def truthy_str_def)

section \<open>The log list\<close>

lemma analyze_handleStatusUpdate_logs: "a_logs (analyze_handleStatusUpdate u sa) = a_logs sa"
  by (simp add: analyze_handleStatusUpdate_def Let_def)

lemma analyze_toast_effect_logs: "a_logs (analyze_toast_effect w sa) = a_logs sa"
  by (simp add: analyze_toast_effect_def)

lemma clean_onStatusUpdate_logs: "c_logs (clean_onStatusUpdate u sc) = c_logs sc"
  by (simp add: clean_onStatusUpdate_def Let_def)

lemma clean_toast_effect_logs: "c_logs (clean_toast_effect sc) = c_logs sc"
  by (simp add: clean_toast_effect_def)

lemma train_onStatusUpdate_logs: "t_logs (train_onStatusUpdate u st) = t_logs st"
  by (simp add: train_onStatusUpdate_def Let_def)

lemma train_onMetric_logs: "t_logs (snd (train_onMetric now cp m st)) = t_logs st"
  by (simp add: train_onMetric_def Let_def split: option.splits)

lemma train_onProgress_logs: "t_logs (snd (train_onProgress now p st)) = t_logs st"
  by (simp add: train_onProgress_def Let_def)

lemma analyze_fetch_resolved_logs:
  "\<exists>notes. a_logs (analyze_fetch_resolved now fetched results sa) = a_logs sa @ notes \<and>
           length notes \<le> 1"
  by (simp add: analyze_fetch_resolved_def Let_def)

lemma analyze_trigger_rejected_logs:
  "\<exists>notes. a_logs (analyze_trigger_rejected now msg sa) = a_logs sa @ notes \<and> length notes \<le> 1"
  by (simp add: analyze_trigger_rejected_def)

lemma clean_handleStartCleaning_logs:
  "c_logs (clean_handleStartCleaning now1 now2 sc) =
     (if c_status sc = ''READY'' \<or> c_status sc = ''CLEANING_FAILED''
      then [client_note ''CLIENT'' ''Resetting state for new cleaning run...'' now1,
            client_note ''CLIENT'' ''Cleaning task requested...'' now2]
      else c_logs sc)"
  by (simp add: clean_handleStartCleaning_def)

text \<open>
  C9, as the code has it. On a mounted page every log event appends exactly one entry, the
  stamped event, after the entries already there. Status, metric and progress events leave
  the list alone, as do the status handlers and toast effects taken one by one, and the
  notes the Analyze page writes itself are appended. The one
  operation that removes entries is \<^verbatim>\<open>handleStartCleaning\<close> on the Clean page: started from
  READY or CLEANING_FAILED it replaces the list by its two notes.
\<close>

theorem log_list_appends_until_cleaning_restart:
  "(a_isMounted sa \<longrightarrow> a_logs (snd (analyze_handleLog now lg sa)) = a_logs sa @ [stamp_log now lg]) \<and>
   (c_isMounted sc \<longrightarrow> c_logs (snd (clean_onLog now lg sc)) = c_logs sc @ [stamp_log now lg]) \<and>
   (t_isMounted st \<longrightarrow> t_logs (snd (train_onLog now lg st)) = t_logs st @ [stamp_log now lg]) \<and>
   a_logs (analyze_handleStatusUpdate u sa) = a_logs sa \<and>
   a_logs (analyze_toast_effect w sa) = a_logs sa \<and>
   c_logs (clean_onStatusUpdate u sc) = c_logs sc \<and>
   c_logs (clean_toast_effect sc) = c_logs sc \<and>
   t_logs (train_onStatusUpdate u st) = t_logs st \<and>
   t_logs (snd (train_onMetric now cp m st)) = t_logs st \<and>
   t_logs (snd (train_onProgress now p st)) = t_logs st \<and>
   (\<exists>notes. a_logs (analyze_fetch_resolved now fetched results sa) = a_logs sa @ notes \<and>
            length notes \<le> 1) \<and>
   (\<exists>notes. a_logs (analyze_trigger_rejected now msg sa) = a_logs sa @ notes \<and>
            length notes \<le> 1) \<and>
   c_logs (clean_handleStartCleaning now now2 sc) =
     (if c_status sc = ''READY'' \<or> c_status sc = ''CLEANING_FAILED''
      then [client_note ''CLIENT'' ''Resetting state for new cleaning run...'' now,
            client_note ''CLIENT'' ''Cleaning task requested...'' now2]
      else c_logs sc)"
proof -
  have a: "a_isMounted sa \<longrightarrow> a_logs (snd (analyze_handleLog now lg sa)) = a_logs sa @ [stamp_log now lg]"
    by (simp add: analyze_handleLog_def Let_def)
  have c: "c_isMounted sc \<longrightarrow> c_logs (snd (clean_onLog now lg sc)) = c_logs sc @ [stamp_log now lg]"
    by (simp add: clean_onLog_def Let_def)
  have t: "t_isMounted st \<longrightarrow> t_logs (snd (train_onLog now lg st)) = t_logs st @ [stamp_log now lg]"
    by (simp add: train_onLog_def Let_def)
  show ?thesis
    using a c t analyze_handleStatusUpdate_logs [of u sa] analyze_toast_effect_logs [of w sa]
      clean_onStatusUpdate_logs [of u sc] clean_toast_effect_logs [of sc]
      train_onStatusUpdate_logs [of u st] train_onMetric_logs [of now cp m st]
      train_onProgress_logs [of now p st] analyze_fetch_resolved_logs [of now fetched results sa]
      analyze_trigger_rejected_logs [of now msg sa] clean_handleStartCleaning_logs [of now now2 sc]
    by (intro conjI) assumption+
qed

text \<open>The theorem at one log event on each loaded page.\<close>

theorem log_list_appends_until_cleaning_restart_witness:
  "c_logs (snd (clean_onLog ''2026-01-01T00:00:00.000Z'' sample_log (clean_loaded ''CLEANING'')))
     = [sample_log\<lparr>l_timestamp := Some ''2026-01-01T00:00:00.000Z''\<rparr>] \<and>
   a_logs (snd (analyze_handleLog ''2026-01-01T00:00:00.000Z'' sample_log (analyze_loaded ''ANALYZING'')))
     = [sample_log\<lparr>l_timestamp := Some ''2026-01-01T00:00:00.000Z''\<rparr>] \<and>
   t_logs (snd (train_onLog ''2026-01-01T00:00:00.000Z'' sample_log (train_loaded ''TRAINING'')))
     = [sample_log\<lparr>l_timestamp := Some ''2026-01-01T00:00:00.000Z''\<rparr>]"
  using log_list_appends_until_cleaning_restart
    [of "analyze_loaded ''ANALYZING''" "''2026-01-01T00:00:00.000Z''" sample_log
        "clean_loaded ''CLEANING''" "train_loaded ''TRAINING''"]
  by (simp add: train_loaded_def train_initial_def analyze_loaded_def analyze_initial_def
      clean_loaded_def clean_initial_def sample_log_def stamp_log_def truthy_str_def)

text \<open>
  C9 as stated fails on the Clean page: an entry logged before a cleaning retry is no
  longer in the list after \<^verbatim>\<open>handleStartCleaning\<close>.
\<close>

theorem cleaning_restart_drops_logs_counterexample:
  "stamp_log ''2026-01-01T00:00:00.000Z'' sample_log
     \<in> set (c_logs (snd (clean_onLog ''2026-01-01T00:00:00.000Z'' sample_log
                          (clean_loaded ''CLEANING_FAILED'')))) \<and>
   stamp_log ''2026-01-01T00:00:00.000Z'' sample_log
     \<notin> set (c_logs (clean_handleStartCleaning ''2026-01-01T00:05:00.000Z''
                      ''2026-01-01T00:05:00.001Z''
                      (snd (clean_onLog ''2026-01-01T00:00:00.000Z'' sample_log
                              (clean_loaded ''CLEANING_FAILED'')))))"
  by (simp add: clean_handleStartCleaning_def clean_onLog_def clean_loaded_def clean_initial_def
      sample_log_def stamp_log_def truthy_str_def client_note_def Let_def)

end
